theory Spec2Isabelle
  imports Main
begin

section \<open>The outside world of pywincert\<close>

text \<open>
  pywincert drives external programs: the registry, a WScript shell (launch, window
  activation, synthetic keystrokes), the clock, the file system and command-line tools.
  The model records every action of the program in a trace and lets the outside world answer
  each query from the history of actions so far. Before each action the outside world may
  change the file system (the launched makecert process writes its files while the program
  sleeps and types).

  Sleeps are in milliseconds: \<^verbatim>\<open>time.sleep(0.5)\<close> is \<open>Sleep 500\<close>,
  \<^verbatim>\<open>time.sleep(0.2)\<close> is \<open>Sleep 200\<close>.
\<close>

datatype level = DEBUG | INFO | ERROR

datatype event =
    RegQuery
  | Run string
  | AppActivate string
  | SendKeys string
  | Sleep nat
  | IsFile string bool
  | Exec "string list"
  | Mkdtemp string
  | Rmtree string
  | Now
  | Log level string

datatype error =
    RuntimeError string
  | AssertionError string
  | CalledProcessError int "string list" string
  | OverflowError
  | ValueError

record datetime =
  year :: int
  month :: int
  day :: int
  hour :: int
  minute :: int
  second :: int

record world =
  files :: "string list"
  dirs :: "string list"
  trace :: "event list"

record env =
  registry :: "event list \<Rightarrow> string option"
  react :: "event list \<Rightarrow> string list \<times> string list \<Rightarrow> string list \<times> string list"
  activate :: "event list \<Rightarrow> string \<Rightarrow> bool"
  proc :: "event list \<Rightarrow> string list \<Rightarrow> int \<times> string \<times> string"
  clock :: "event list \<Rightarrow> datetime"
  tmpname :: "event list \<Rightarrow> string"
  locked :: "event list \<Rightarrow> string \<Rightarrow> bool"

definition tick :: "env \<Rightarrow> event \<Rightarrow> world \<Rightarrow> world" where
  "tick E e w =
     (let (f, d) = react E (trace w) (files w, dirs w)
      in \<lparr>files = f, dirs = d, trace = trace w @ [e]\<rparr>)"

definition seq :: "(world \<Rightarrow> world) list \<Rightarrow> world \<Rightarrow> world" where
  "seq steps w = foldl (\<lambda>v step. step v) w steps"

definition LOG :: "env \<Rightarrow> level \<Rightarrow> string \<Rightarrow> world \<Rightarrow> world" where
  "LOG E l msg = tick E (Log l msg)"

subsection \<open>WScript.Shell and time.sleep\<close>

definition shell_Run :: "env \<Rightarrow> string \<Rightarrow> world \<Rightarrow> world" where
  "shell_Run E cmd = tick E (Run cmd)"

definition shell_AppActivate :: "env \<Rightarrow> string \<Rightarrow> world \<Rightarrow> bool \<times> world" where
  "shell_AppActivate E title w = (activate E (trace w) title, tick E (AppActivate title) w)"

definition shell_SendKeys :: "env \<Rightarrow> string \<Rightarrow> world \<Rightarrow> world" where
  "shell_SendKeys E keys = tick E (SendKeys keys)"

definition time_sleep :: "env \<Rightarrow> nat \<Rightarrow> world \<Rightarrow> world" where
  "time_sleep E ms = tick E (Sleep ms)"

section \<open>The popup responders\<close>

definition popup1 :: string where
  "popup1 = ''Create Private Key Password''"

text \<open>
  The polling loop of both responders:
  \<^verbatim>\<open>for _ in xrange(20): if shell.AppActivate(title): break; time.sleep(0.5)\<close>,
  with the number of rounds left as the first argument.
\<close>

fun poll_popup :: "env \<Rightarrow> nat \<Rightarrow> world \<Rightarrow> world" where
  "poll_popup E 0 w = w"
| "poll_popup E (Suc n) w =
     (let (found, w1) = shell_AppActivate E popup1 w
      in if found then w1 else poll_popup E n (time_sleep E 500 w1))"

definition run_makecert_authority :: "env \<Rightarrow> string \<Rightarrow> string \<Rightarrow> world \<Rightarrow> (error + unit) \<times> world" where
  "run_makecert_authority E cmd password w =
     (let w1 = LOG E DEBUG (''run_makecert_authority '' @ cmd) w;
          w2 = shell_Run E cmd w1;
          w3 = poll_popup E 20 w2;
          (found, w4) = shell_AppActivate E popup1 w3
      in if \<not> found then (Inl (RuntimeError ''timeout waiting for makecert popup(1)''), w4)
         else (Inr (), seq [
           time_sleep E 200,
           shell_SendKeys E password,
           time_sleep E 200,
           shell_SendKeys E ''{TAB}'',
           time_sleep E 200,
           shell_SendKeys E password,
           time_sleep E 200,
           shell_SendKeys E ''{TAB}'',
           time_sleep E 200,
           shell_SendKeys E ''{ENTER}'',
           time_sleep E 500,
           shell_SendKeys E password,
           time_sleep E 200,
           shell_SendKeys E ''{TAB}'',
           time_sleep E 200,
           shell_SendKeys E ''{ENTER}'',
           time_sleep E 500] w4))"

definition run_makecert_enduser :: "env \<Rightarrow> string \<Rightarrow> string \<Rightarrow> world \<Rightarrow> (error + unit) \<times> world" where
  "run_makecert_enduser E cmd password w =
     (let w1 = LOG E DEBUG (''run_makecert_enduser '' @ cmd) w;
          w2 = shell_Run E cmd w1;
          w3 = poll_popup E 20 w2;
          (found, w4) = shell_AppActivate E popup1 w3
      in if \<not> found then (Inl (RuntimeError ''timeout waiting for makecert popup(1)''), w4)
         else (Inr (), seq [
           shell_SendKeys E password,
           time_sleep E 200,
           shell_SendKeys E ''{TAB}'',
           time_sleep E 200,
           shell_SendKeys E password,
           time_sleep E 200,
           shell_SendKeys E ''{TAB}'',
           time_sleep E 200,
           shell_SendKeys E ''{ENTER}'',
           time_sleep E 500,
           shell_SendKeys E password,
           time_sleep E 200,
           shell_SendKeys E ''{TAB}'',
           time_sleep E 200,
           shell_SendKeys E ''{ENTER}'',
           time_sleep E 500,
           shell_SendKeys E password,
           time_sleep E 200,
           shell_SendKeys E ''{TAB}'',
           time_sleep E 200,
           shell_SendKeys E ''{ENTER}'',
           time_sleep E 500] w4))"

section \<open>Registry, paths, files and tools\<close>

definition bslash :: char where
  "bslash = CHR 0x5C"

definition dq :: string where
  "dq = [CHR 0x22]"

definition sq :: string where
  "sq = [CHR 0x27]"

definition newline :: char where
  "newline = CHR 0x0A"

definition WINSDK_ERROR :: string where
  "WINSDK_ERROR = ''Windows SDK may not be installed on this machine. '' @
     ''You can read more and (re-)download from '' @
     ''https://en.wikipedia.org/wiki/Microsoft_Windows_SDK''"

text \<open>\<^verbatim>\<open>re.sub(r'\\\\', r'\\', pth)\<close>: every pair of backslashes, from the left, becomes one.\<close>

fun unescape :: "string \<Rightarrow> string" where
  "unescape (a # b # cs) =
     (if a = bslash \<and> b = bslash then bslash # unescape cs else a # unescape (b # cs))"
| "unescape cs = cs"

text \<open>
  \<open>registry E h\<close> is the value of \<^verbatim>\<open>CurrentInstallFolder\<close> under the SDK key, \<open>None\<close> when the
  key or the value is missing (WindowsError).
\<close>

definition get_winsdk_path :: "env \<Rightarrow> world \<Rightarrow> (error + string) \<times> world" where
  "get_winsdk_path E w =
     (case registry E (trace w) of
        None \<Rightarrow> (Inl (RuntimeError (''missing windows sdk registry entry: '' @ WINSDK_ERROR)),
                 tick E RegQuery w)
      | Some pth \<Rightarrow> (Inr (unescape pth), tick E RegQuery w))"

text \<open>
  \<^verbatim>\<open>os.path.join(a, b)\<close> of ntpath, for a second part that is relative and has no drive (all
  the parts joined here are literal file names).
\<close>

definition path_join :: "string \<Rightarrow> string \<Rightarrow> string" where
  "path_join a b =
     (if a = [] then b
      else if last a = bslash \<or> last a = CHR ''/'' \<or> last a = CHR '':'' then a @ b
      else a @ bslash # b)"

definition os_path_isfile :: "env \<Rightarrow> string \<Rightarrow> world \<Rightarrow> bool \<times> world" where
  "os_path_isfile E fname w =
     (let (f, d) = react E (trace w) (files w, dirs w)
      in (fname \<in> set f, tick E (IsFile fname (fname \<in> set f)) w))"

text \<open>\<open>within d p\<close>: the path \<open>p\<close> is the directory \<open>d\<close> or lies below it.\<close>

definition within :: "string \<Rightarrow> string \<Rightarrow> bool" where
  "within d p = (p = d \<or> take (Suc (length d)) p = d @ [bslash]
     \<or> take (Suc (length d)) p = d @ ''/'')"

definition tempfile_mkdtemp :: "env \<Rightarrow> world \<Rightarrow> string \<times> world" where
  "tempfile_mkdtemp E w =
     (let d = tmpname E (trace w); w1 = tick E (Mkdtemp d) w
      in (d, w1\<lparr>dirs := d # dirs w1\<rparr>))"

text \<open>
  \<^verbatim>\<open>shutil.rmtree(d, ignore_errors=True)\<close> removes what it can of the directory and of all
  below it and never raises: a removal that fails is ignored. \<open>locked E h p\<close> says that the path
  \<open>p\<close> cannot be removed after the history \<open>h\<close> (it is in use, as a file that the launched
  makecert, which is never awaited, still holds open). A path that cannot be removed stays,
  and so does every directory that it lies in.
\<close>

definition shutil_rmtree :: "env \<Rightarrow> string \<Rightarrow> world \<Rightarrow> world" where
  "shutil_rmtree E d w =
     (let w1 = tick E (Rmtree d) w;
          stuck = filter (\<lambda>q. within d q \<and> locked E (trace w) q) (files w1 @ dirs w1)
      in w1\<lparr>files := filter (\<lambda>p. \<not> within d p \<or> p \<in> set stuck) (files w1),
             dirs := filter (\<lambda>p. \<not> within d p \<or> list_ex (within p) stuck) (dirs w1)\<rparr>)"

text \<open>
  \<open>proc E h argv\<close> is what the tool run as \<open>argv\<close> after the history \<open>h\<close> gives: its exit code,
  its standard output and its standard error.
  \<^verbatim>\<open>subprocess.check_output\<close> returns the output and raises CalledProcessError on a nonzero exit code.
\<close>

definition popen_communicate :: "env \<Rightarrow> string list \<Rightarrow> world \<Rightarrow> (int \<times> string \<times> string) \<times> world" where
  "popen_communicate E argv w = (proc E (trace w) argv, tick E (Exec argv) w)"

definition check_output :: "env \<Rightarrow> string list \<Rightarrow> world \<Rightarrow> (error + string) \<times> world" where
  "check_output E argv w =
     (case proc E (trace w) argv of
        (returncode, output, err) \<Rightarrow>
          if returncode \<noteq> 0 then (Inl (CalledProcessError returncode argv output), tick E (Exec argv) w)
          else (Inr output, tick E (Exec argv) w))"

definition cr :: char where
  "cr = CHR 0x0D"

text \<open>
  The newline translation of \<^verbatim>\<open>universal_newlines=True\<close>:
  \<^verbatim>\<open>data.replace("\r\n", "\n").replace("\r", "\n")\<close>.
\<close>

fun universal_newlines :: "string \<Rightarrow> string" where
  "universal_newlines [] = []"
| "universal_newlines [c] = (if c = cr then [newline] else [c])"
| "universal_newlines (c # d # cs) =
     (if c = cr \<and> d = newline then newline # universal_newlines cs
      else if c = cr then newline # universal_newlines (d # cs)
      else c # universal_newlines (d # cs))"

text \<open>\<^verbatim>\<open>subprocess.check_output(argv, shell=True, universal_newlines=True)\<close>\<close>

definition check_output_text :: "env \<Rightarrow> string list \<Rightarrow> world \<Rightarrow> (error + string) \<times> world" where
  "check_output_text E argv w =
     (case proc E (trace w) argv of
        (returncode, output, err) \<Rightarrow>
          if returncode \<noteq> 0
          then (Inl (CalledProcessError returncode argv (universal_newlines output)),
                tick E (Exec argv) w)
          else (Inr (universal_newlines output), tick E (Exec argv) w))"

text \<open>Sequencing of fallible steps: an error ends the sequence and keeps the world reached.\<close>

definition bind :: "(world \<Rightarrow> (error + 'a) \<times> world) \<Rightarrow> ('a \<Rightarrow> world \<Rightarrow> (error + 'b) \<times> world)
    \<Rightarrow> world \<Rightarrow> (error + 'b) \<times> world" where
  "bind m f w = (case m w of (Inl e, w1) \<Rightarrow> (Inl e, w1) | (Inr x, w1) \<Rightarrow> f x w1)"


text \<open>
  \<^verbatim>\<open>try: check_output(argv) except CalledProcessError as exc: raise RuntimeError(msg % exc.output)\<close>
\<close>

definition check_output_or_RuntimeError :: "env \<Rightarrow> string list \<Rightarrow> string \<Rightarrow> world \<Rightarrow> (error + string) \<times> world" where
  "check_output_or_RuntimeError E argv msg w =
     (case check_output E argv w of
        (Inl (CalledProcessError returncode a output), w1) \<Rightarrow> (Inl (RuntimeError (msg @ output)), w1)
      | other \<Rightarrow> other)"

text \<open>
  The check of the expected output files of both creators:
  \<^verbatim>\<open>for fname in (...): if not os.path.isfile(fname): raise RuntimeError(msg % fname)\<close>
\<close>

fun confirm_output :: "env \<Rightarrow> string \<Rightarrow> string list \<Rightarrow> world \<Rightarrow> (error + unit) \<times> world" where
  "confirm_output E msg [] w = (Inr (), w)"
| "confirm_output E msg (fname # rest) w =
     (case os_path_isfile E fname w of
        (found, w1) \<Rightarrow>
          if \<not> found then (Inl (RuntimeError (msg @ fname)), w1)
          else confirm_output E msg rest w1)"

section \<open>Signing\<close>

definition timestamp_urls :: "string list" where
  "timestamp_urls =
     [''http://timestamp.comodoca.com/authenticode'',
      ''http://timestamp.verisign.com/scripts/timstamp.dll'',
      ''http://timestamp.globalsign.com/scripts/timestamp.dll'',
      ''http://tsa.starfieldtech.com'']"

definition sign_cmd :: "string \<Rightarrow> string \<Rightarrow> string \<Rightarrow> string \<Rightarrow> string \<Rightarrow> string list" where
  "sign_cmd signtool pfx_file password turl exe =
     [signtool, ''sign'', ''/f'', pfx_file, ''/p'', password, ''/t'', turl, exe]"

text \<open>The loop of \<open>sign_code\<close> over the endpoints left; the \<^verbatim>\<open>raise\<close> after the loop is its empty case.\<close>

fun sign_loop :: "env \<Rightarrow> string \<Rightarrow> string \<Rightarrow> string \<Rightarrow> string \<Rightarrow> string list \<Rightarrow> world
    \<Rightarrow> (error + unit) \<times> world" where
  "sign_loop E signtool exe pfx_file password [] w =
     (Inl (RuntimeError (''retries exhausted signing '' @ exe)), w)"
| "sign_loop E signtool exe pfx_file password (turl # rest) w =
     (case popen_communicate E (sign_cmd signtool pfx_file password turl exe) w of
        ((returncode, stdout, stderr), w1) \<Rightarrow>
          if returncode = 2
          then sign_loop E signtool exe pfx_file password rest
                 (LOG E DEBUG (''failed to sign w/ timestamp url '' @ turl) w1)
          else (Inr (),
                LOG E DEBUG stdout
                  (if returncode \<noteq> 0 then LOG E ERROR stderr (LOG E INFO stdout w1) else w1)))"

definition sign_code :: "env \<Rightarrow> string \<Rightarrow> string \<Rightarrow> string \<Rightarrow> world \<Rightarrow> (error + unit) \<times> world" where
  "sign_code E exe pfx_file password =
     bind (get_winsdk_path E) (\<lambda>sdk.
       sign_loop E (path_join (path_join sdk ''Bin'') ''signtool.exe'') exe pfx_file password
         timestamp_urls)"

definition is_signed :: "env \<Rightarrow> string \<Rightarrow> world \<Rightarrow> (error + bool) \<times> world" where
  "is_signed E exe =
     bind (get_winsdk_path E) (\<lambda>sdk w.
       case check_output E [path_join (path_join sdk ''Bin'') ''signtool.exe'',
              ''verify'', ''/q'', ''/pa'', exe] w of
         (Inl (CalledProcessError returncode a output), w1) \<Rightarrow> (Inr False, w1)
       | (Inl e, w1) \<Rightarrow> (Inl e, w1)
       | (Inr output, w1) \<Rightarrow> (Inr True, w1))"

section \<open>Removal from the certificate stores\<close>

text \<open>\<^verbatim>\<open>output.split("\n")\<close>\<close>

fun split_on :: "char \<Rightarrow> string \<Rightarrow> string list" where
  "split_on c [] = [[]]"
| "split_on c (x # xs) =
     (if x = c then [] # split_on c xs
      else (case split_on c xs of l # ls \<Rightarrow> (x # l) # ls | [] \<Rightarrow> [[x]]))"

text \<open>The character class \<^verbatim>\<open>[a-f\d]\<close> of a Python 2 byte-string pattern.\<close>

definition hexd :: "char \<Rightarrow> bool" where
  "hexd c = (c \<in> set ''abcdef'' \<or> c \<in> set ''0123456789'')"

text \<open>
  \<^verbatim>\<open>re.match(r'^Serial Number: ([a-f\d]+)$', line)\<close>, giving group 1. The class is matched
  greedily, and \<^verbatim>\<open>$\<close> matches at the end of the line or before a newline that ends it.
\<close>

definition re_match_serial :: "string \<Rightarrow> string option" where
  "re_match_serial line =
     (let rest = drop (length ''Serial Number: '') line
      in if take (length ''Serial Number: '') line = ''Serial Number: ''
            \<and> takeWhile hexd rest \<noteq> []
            \<and> (dropWhile hexd rest = [] \<or> dropWhile hexd rest = [newline])
         then Some (takeWhile hexd rest) else None)"

fun extract_snums :: "string list \<Rightarrow> string list" where
  "extract_snums [] = []"
| "extract_snums (line # rest) =
     (case re_match_serial line of
        Some snum \<Rightarrow> snum # extract_snums rest
      | None \<Rightarrow> extract_snums rest)"

fun delete_snums :: "env \<Rightarrow> string \<Rightarrow> string list \<Rightarrow> world \<Rightarrow> (error + unit) \<times> world" where
  "delete_snums E store [] w = (Inr (), w)"
| "delete_snums E store (snum # rest) w =
     (case check_output E [''certutil.exe'', ''-delstore'', store, snum]
             (LOG E DEBUG (''delete certificate '' @ snum) w) of
        (Inl e, w1) \<Rightarrow> (Inl e, w1)
      | (Inr output, w1) \<Rightarrow> delete_snums E store rest w1)"

definition remove_cert_fromstore :: "env \<Rightarrow> string \<Rightarrow> string \<Rightarrow> world \<Rightarrow> (error + unit) \<times> world" where
  "remove_cert_fromstore E certid store =
     bind (check_output_text E [''certutil.exe'', ''-store'', store, certid]) (\<lambda>output w.
       if extract_snums (split_on newline output) = []
       then (Inl (RuntimeError (''no certificate with matching certid '' @ sq @ certid @ sq)), w)
       else delete_snums E store (extract_snums (split_on newline output)) w)"

definition remove_ca :: "env \<Rightarrow> string \<Rightarrow> world \<Rightarrow> (error + unit) \<times> world" where
  "remove_ca E certid =
     bind (remove_cert_fromstore E certid ''Root'') (\<lambda>u.
       remove_cert_fromstore E certid ''CA'')"

section \<open>Dates\<close>

text \<open>
  The dates of Python's \<^verbatim>\<open>datetime\<close>: a date is a year, a month and a day of the proleptic
  Gregorian calendar, its ordinal counts the days from 1 January of year 1, and the last
  date is 31 December 9999 (ordinal 3652059).
\<close>

type_synonym date = "int \<times> int \<times> int"

definition is_leap :: "int \<Rightarrow> bool" where
  "is_leap y = (y mod 4 = 0 \<and> (y mod 100 \<noteq> 0 \<or> y mod 400 = 0))"

definition DAYS_IN_MONTH :: "int list" where
  "DAYS_IN_MONTH = [-1, 31, 28, 31, 30, 31, 30, 31, 31, 30, 31, 30, 31]"

definition DAYS_BEFORE_MONTH :: "int list" where
  "DAYS_BEFORE_MONTH = [-1, 0, 31, 59, 90, 120, 151, 181, 212, 243, 273, 304, 334]"

definition days_before_year :: "int \<Rightarrow> int" where
  "days_before_year y = (y - 1) * 365 + (y - 1) div 4 - (y - 1) div 100 + (y - 1) div 400"

definition days_before_month :: "int \<Rightarrow> int \<Rightarrow> int" where
  "days_before_month y m = DAYS_BEFORE_MONTH ! nat m + (if m > 2 \<and> is_leap y then 1 else 0)"

definition ymd2ord :: "date \<Rightarrow> int" where
  "ymd2ord d = (case d of (y, m, dd) \<Rightarrow> days_before_year y + days_before_month y m + dd)"

definition ord2ymd :: "int \<Rightarrow> date" where
  "ord2ymd n0 =
     (let n = n0 - 1;
          n400 = n div 146097; n = n mod 146097;
          n100 = n div 36524; n = n mod 36524;
          n4 = n div 1461; n = n mod 1461;
          n1 = n div 365; n = n mod 365;
          y = n400 * 400 + 1 + n100 * 100 + n4 * 4 + n1
      in if n1 = 4 \<or> n100 = 4 then (y - 1, 12, 31)
         else
           (let leapyear = (n1 = 3 \<and> (n4 \<noteq> 24 \<or> n100 = 3));
                m = (n + 50) div 32;
                preceding = DAYS_BEFORE_MONTH ! nat m + (if m > 2 \<and> leapyear then 1 else 0)
            in if preceding > n
               then (y, m - 1,
                     n - (preceding - (DAYS_IN_MONTH ! nat (m - 1)
                            + (if m - 1 = 2 \<and> leapyear then 1 else 0))) + 1)
               else (y, m, n - preceding + 1)))"

text \<open>
  \<^verbatim>\<open>date + timedelta\<close> uses the days of the timedelta only (its seconds are ignored), and
  raises OverflowError outside the range of dates.
\<close>

definition date_add_days :: "date \<Rightarrow> int \<Rightarrow> error + date" where
  "date_add_days d days =
     (if 0 < ymd2ord d + days \<and> ymd2ord d + days \<le> 3652059
      then Inr (ord2ymd (ymd2ord d + days)) else Inl OverflowError)"

text \<open>The days of \<^verbatim>\<open>timedelta(hours=h)\<close> after normalisation: whole days, rounded down.\<close>

definition timedelta_hours_days :: "int \<Rightarrow> int" where
  "timedelta_hours_days h = (h * 3600) div 86400"

definition digit :: "int \<Rightarrow> char" where
  "digit k = ''0123456789'' ! nat k"

text \<open>\<^verbatim>\<open>strftime('%m/%d/%Y')\<close>; in Python 2 it raises ValueError for a year before 1900.\<close>

definition strftime_mdY :: "date \<Rightarrow> error + string" where
  "strftime_mdY d =
     (case d of (y, m, dd) \<Rightarrow>
        if y < 1900 then Inl ValueError
        else Inr ([digit (m div 10), digit (m mod 10), CHR ''/'',
                   digit (dd div 10), digit (dd mod 10), CHR ''/'',
                   digit (y div 1000), digit (y div 100 mod 10), digit (y div 10 mod 10),
                   digit (y mod 10)]))"

definition date_of :: "datetime \<Rightarrow> date" where
  "date_of t = (year t, month t, day t)"

definition datetime_now :: "env \<Rightarrow> world \<Rightarrow> datetime \<times> world" where
  "datetime_now E w = (clock E (trace w), tick E Now w)"

definition and_then :: "error + 'a \<Rightarrow> ('a \<Rightarrow> error + 'b) \<Rightarrow> error + 'b" where
  "and_then r f = (case r of Inl e \<Rightarrow> Inl e | Inr x \<Rightarrow> f x)"

section \<open>Creating certificates\<close>

text \<open>
  The validity window of \<open>make_ca\<close>, lines 232 to 236:
  \<^verbatim>\<open>beg_date = (now.date() - timedelta(days=1)).strftime('%m/%d/%Y')\<close> and
  \<^verbatim>\<open>end_date = (now.date() + timedelta(hours=valid_hours)).strftime('%m/%d/%Y')\<close>.
\<close>

definition make_ca_dates :: "datetime \<Rightarrow> int \<Rightarrow> error + string \<times> string" where
  "make_ca_dates now valid_hours =
     and_then (date_add_days (date_of now) (- 1)) (\<lambda>beg.
     and_then (strftime_mdY beg) (\<lambda>beg_date.
     and_then (date_add_days (date_of now) (timedelta_hours_days valid_hours)) (\<lambda>end.
     and_then (strftime_mdY end) (\<lambda>end_date. Inr (beg_date, end_date)))))"

definition make_ca_cmd :: "string \<Rightarrow> string \<Rightarrow> string \<Rightarrow> string \<Rightarrow> string \<Rightarrow> string \<Rightarrow> string" where
  "make_ca_cmd mkcert beg_date end_date subject pvk_filename cer_filename =
     dq @ mkcert @ dq @ '' '' @
     ''-r '' @
     ''-a sha1 '' @
     ''-pe '' @
     ''-b '' @ beg_date @ '' '' @
     ''-e '' @ end_date @ '' '' @
     ''-n '' @ dq @ ''CN='' @ subject @ dq @ '' '' @
     ''-ss CA '' @
     ''-sr LocalMachine '' @
     ''-cy authority '' @
     ''-sky signature '' @
     ''-sv '' @ dq @ pvk_filename @ dq @ '' '' @
     dq @ cer_filename @ dq"

definition make_ca :: "env \<Rightarrow> string \<Rightarrow> string \<Rightarrow> string \<Rightarrow> string \<Rightarrow> int \<Rightarrow> world
    \<Rightarrow> (error + unit) \<times> world" where
  "make_ca E subject password pvk_filename cer_filename valid_hours =
     bind (get_winsdk_path E) (\<lambda>sdk w1.
       case os_path_isfile E (path_join (path_join sdk ''Bin'') ''makecert.exe'') w1 of
         (found, w2) \<Rightarrow>
           if \<not> found
           then (Inl (AssertionError
                   (''missing '' @ sq @ path_join (path_join sdk ''Bin'') ''makecert.exe'' @ sq)), w2)
           else
             (case datetime_now E w2 of
                (now, w3) \<Rightarrow>
                  (case make_ca_dates now valid_hours of
                     Inl e \<Rightarrow> (Inl e, w3)
                   | Inr (beg_date, end_date) \<Rightarrow>
                       bind (run_makecert_authority E
                               (make_ca_cmd (path_join (path_join sdk ''Bin'') ''makecert.exe'')
                                  beg_date end_date subject pvk_filename cer_filename) password) (\<lambda>u.
                       bind (confirm_output E ''makecert(CA) did not create ''
                               [pvk_filename, cer_filename]) (\<lambda>u.
                       bind (check_output E [''certutil.exe'', ''-addstore'', ''Root'', cer_filename])
                         (\<lambda>output w. (Inr (), w)))) w3)))"




subsection \<open>A simulated window manager\<close>

fun is_poll :: "event \<Rightarrow> bool" where
  "is_poll (AppActivate t) = True"
| "is_poll e = False"

fun is_keys :: "event \<Rightarrow> bool" where
  "is_keys (SendKeys k) = True"
| "is_keys e = False"

fun is_log :: "event \<Rightarrow> bool" where
  "is_log (Log l m) = True"
| "is_log e = False"

definition count_polls :: "event list \<Rightarrow> nat" where
  "count_polls h = length (filter is_poll h)"

text \<open>
  \<open>wm_after K E\<close> is the world \<open>E\<close> with a window manager that reports the popup from the
  \<open>K\<close>-th call of AppActivate on (calls are counted from 1), and not before.
\<close>

definition wm_after :: "nat \<Rightarrow> env \<Rightarrow> env" where
  "wm_after K E = E\<lparr>activate := (\<lambda>h t. t = popup1 \<and> K \<le> Suc (count_polls h))\<rparr>"

definition still_env :: env where
  "still_env = \<lparr>registry = (\<lambda>h. Some ''C:/SDK''), react = (\<lambda>h fs. fs),
     activate = (\<lambda>h t. False), proc = (\<lambda>h argv. (0, [], [])),
     clock = (\<lambda>h. \<lparr>year = 2017, month = 1, day = 1, hour = 23, minute = 0, second = 0\<rparr>),
     tmpname = (\<lambda>h. ''C:/tmp/x''), locked = (\<lambda>h p. False)\<rparr>"

definition world0 :: world where
  "world0 = \<lparr>files = [], dirs = [], trace = []\<rparr>"

subsection \<open>Simulated command-line tools\<close>

fun exec_argv :: "event \<Rightarrow> string list option" where
  "exec_argv (Exec argv) = Some argv"
| "exec_argv e = None"

text \<open>The command lines run so far, in order.\<close>

definition execs :: "event list \<Rightarrow> string list list" where
  "execs h = List.map_filter exec_argv h"

text \<open>
  \<open>tool_replies R E\<close> is the world \<open>E\<close> whose tools answer by the order of their runs: the
  run number \<open>i\<close> (from 0) exits with \<open>fst (R i)\<close> and prints \<open>fst (snd (R i))\<close> on its standard
  output and \<open>snd (snd (R i))\<close> on its standard error.
\<close>

definition tool_replies :: "(nat \<Rightarrow> int \<times> string \<times> string) \<Rightarrow> env \<Rightarrow> env" where
  "tool_replies R E = E\<lparr>proc := (\<lambda>h argv. R (length (execs h)))\<rparr>"

text \<open>The attempts of \<open>sign_code\<close> that exit with code 2, each with its log line.\<close>

definition skipped :: "string \<Rightarrow> string \<Rightarrow> string \<Rightarrow> string \<Rightarrow> string list \<Rightarrow> event list" where
  "skipped signtool exe pfx_file password urls =
     concat (map (\<lambda>turl. [Exec (sign_cmd signtool pfx_file password turl exe),
                          Log DEBUG (''failed to sign w/ timestamp url '' @ turl)]) urls)"

text \<open>The deletions of \<open>remove_cert_fromstore\<close> for a list of serial numbers, each with its log line.\<close>

definition deletions :: "string \<Rightarrow> string list \<Rightarrow> event list" where
  "deletions store snums =
     concat (map (\<lambda>snum. [Log DEBUG (''delete certificate '' @ snum),
                          Exec [''certutil.exe'', ''-delstore'', store, snum]]) snums)"

text \<open>The hexadecimal digits, in either case.\<close>

definition hex_digit :: "char \<Rightarrow> bool" where
  "hex_digit c = (c \<in> set ''0123456789ABCDEFabcdef'')"

text \<open>
  The pattern in the words of the claim: a line that is \<^verbatim>\<open>Serial Number: \<close> followed by
  hexadecimal digits.
\<close>

definition claimed_serial_line :: "string \<Rightarrow> bool" where
  "claimed_serial_line l =
     (take 15 l = ''Serial Number: '' \<and> drop 15 l \<noteq> [] \<and> list_all hex_digit (drop 15 l))"

text \<open>The lower-case hexadecimal digits.\<close>

definition lower_hex_digit :: "char \<Rightarrow> bool" where
  "lower_hex_digit c = (c \<in> set ''0123456789abcdef'')"

text \<open>
  The pattern of the amended claim: a line that is \<^verbatim>\<open>Serial Number: \<close> followed by one or more
  lower-case hexadecimal digits and nothing else.
\<close>

definition serial_line :: "string \<Rightarrow> bool" where
  "serial_line l =
     (take 15 l = ''Serial Number: '' \<and> drop 15 l \<noteq> [] \<and> list_all lower_hex_digit (drop 15 l))"

text \<open>A listing with the line ends of Windows and two matching lines among five.\<close>

definition crlf_listing :: string where
  "crlf_listing = ''Root'' @ [cr, newline] @ ''Serial Number: 0a1b'' @ [cr, newline] @
     ''Serial Number: 0A1B'' @ [cr, newline] @ ''  Serial Number: 17'' @ [cr, newline] @
     ''Serial Number: ff'' @ [cr, newline]"

subsection \<open>Readings of a trace\<close>

fun check_of :: "event \<Rightarrow> (string \<times> bool) option" where
  "check_of (IsFile f ok) = Some (f, ok)"
| "check_of e = None"

text \<open>The file checks made so far, each with its answer, in order.\<close>

definition checks :: "event list \<Rightarrow> (string \<times> bool) list" where
  "checks h = List.map_filter check_of h"

fun made_of :: "event \<Rightarrow> string option" where
  "made_of (Mkdtemp d) = Some d"
| "made_of e = None"

text \<open>The scratch directories made so far, in order.\<close>

definition made :: "event list \<Rightarrow> string list" where
  "made h = List.map_filter made_of h"

text \<open>Events of the polling loop only.\<close>

definition polling :: "event list \<Rightarrow> bool" where
  "polling P = (set P \<subseteq> {AppActivate popup1, Sleep 500})"

text \<open>
  The end of the validity window in the words of the specification: the date of the current
  time plus \<open>valid_hours\<close> hours, formatted MM/DD/YYYY.
\<close>

definition claimed_end_date :: "datetime \<Rightarrow> int \<Rightarrow> error + string" where
  "claimed_end_date now valid_hours =
     and_then (date_add_days (date_of now)
        ((hour now * 3600 + minute now * 60 + second now + valid_hours * 3600) div 86400))
       strftime_mdY"

text \<open>A world where makecert.exe is installed and the two files of an authority exist.\<close>

definition ca_world :: world where
  "ca_world = \<lparr>files = [path_join (path_join ''C:/SDK'' ''Bin'') ''makecert.exe'',
                          ''ca.pvk'', ''ca.cer''], dirs = [], trace = []\<rparr>"




text \<open>The failed polls of the loop, each followed by its half-second sleep.\<close>

definition failed_polls :: "nat \<Rightarrow> event list" where
  "failed_polls m = concat (replicate m [AppActivate popup1, Sleep 500])"

definition dialog1_keys :: "string \<Rightarrow> event list" where
  "dialog1_keys password =
     [SendKeys password, Sleep 200, SendKeys ''{TAB}'', Sleep 200, SendKeys password, Sleep 200,
      SendKeys ''{TAB}'', Sleep 200, SendKeys ''{ENTER}'', Sleep 500]"

definition dialogn_keys :: "string \<Rightarrow> event list" where
  "dialogn_keys password =
     [SendKeys password, Sleep 200, SendKeys ''{TAB}'', Sleep 200, SendKeys ''{ENTER}'', Sleep 500]"

definition schedule :: "event list \<Rightarrow> event list" where
  "schedule tr = filter (\<lambda>e. \<not> is_log e) tr"

section \<open>Facts about the popup responders\<close>

lemma trace_tick [simp]: "trace (tick E e w) = trace w @ [e]"
  by (simp add: tick_def split: prod.splits)

lemma trace_LOG [simp]: "trace (LOG E l m w) = trace w @ [Log l m]"
  by (simp add: LOG_def)

lemma trace_shell_Run [simp]: "trace (shell_Run E c w) = trace w @ [Run c]"
  by (simp add: shell_Run_def)

lemma trace_shell_SendKeys [simp]: "trace (shell_SendKeys E k w) = trace w @ [SendKeys k]"
  by (simp add: shell_SendKeys_def)

lemma trace_time_sleep [simp]: "trace (time_sleep E n w) = trace w @ [Sleep n]"
  by (simp add: time_sleep_def)

lemma shell_AppActivate_simps [simp]:
  "fst (shell_AppActivate E t w) = activate E (trace w) t"
  "trace (snd (shell_AppActivate E t w)) = trace w @ [AppActivate t]"
  by (simp_all add: shell_AppActivate_def)

lemma seq_Nil [simp]: "seq [] w = w"
  by (simp add: seq_def)

lemma seq_Cons [simp]: "seq (s # ss) w = seq ss (s w)"
  by (simp add: seq_def)

lemma activate_wm_after [simp]:
  "activate (wm_after K E) h t = (t = popup1 \<and> K \<le> Suc (count_polls h))"
  by (simp add: wm_after_def)

lemma count_polls_append [simp]: "count_polls (a @ b) = count_polls a + count_polls b"
  by (simp add: count_polls_def)

lemma count_polls_simps [simp]:
  "count_polls [] = 0"
  "count_polls (AppActivate t # h) = Suc (count_polls h)"
  "count_polls (Sleep n # h) = count_polls h"
  "count_polls (Run c # h) = count_polls h"
  "count_polls (Log l m # h) = count_polls h"
  "count_polls (SendKeys k # h) = count_polls h"
  by (simp_all add: count_polls_def)

lemma failed_polls_Suc: "failed_polls (Suc m) = AppActivate popup1 # Sleep 500 # failed_polls m"
  by (simp add: failed_polls_def)

lemma failed_polls_0 [simp]: "failed_polls 0 = []"
  by (simp add: failed_polls_def)

lemma poll_popup_Suc:
  "poll_popup E (Suc n) w =
     (if activate E (trace w) popup1 then snd (shell_AppActivate E popup1 w)
      else poll_popup E n (time_sleep E 500 (snd (shell_AppActivate E popup1 w))))"
  by (simp add: shell_AppActivate_def)

declare poll_popup.simps(2) [simp del]

text \<open>The loop gives up after \<open>n\<close> rounds when the popup is due later than that.\<close>

lemma poll_popup_late:
  "count_polls (trace w) + n < K \<Longrightarrow>
   trace (poll_popup (wm_after K E) n w) = trace w @ failed_polls n"
proof (induction n arbitrary: w)
  case 0
  then show ?case by simp
next
  case (Suc n)
  let ?w2 = "time_sleep (wm_after K E) 500 (snd (shell_AppActivate (wm_after K E) popup1 w))"
  from Suc.prems have miss: "\<not> K \<le> Suc (count_polls (trace w))" by simp
  from Suc.prems have "count_polls (trace ?w2) + n < K" by simp
  then have "trace (poll_popup (wm_after K E) n ?w2) = trace ?w2 @ failed_polls n"
    by (rule Suc.IH)
  with miss show ?case
    by (simp add: poll_popup_Suc failed_polls_Suc)
qed

text \<open>The loop leaves at the first poll that finds the popup, when that poll is within its rounds.\<close>

lemma poll_popup_found:
  "count_polls (trace w) < K \<Longrightarrow> K \<le> count_polls (trace w) + n \<Longrightarrow>
   trace (poll_popup (wm_after K E) n w) =
     trace w @ failed_polls (K - Suc (count_polls (trace w))) @ [AppActivate popup1]"
proof (induction n arbitrary: w)
  case 0
  then show ?case by simp
next
  case (Suc n)
  show ?case
  proof (cases "K \<le> Suc (count_polls (trace w))")
    case True
    with Suc.prems have "K - Suc (count_polls (trace w)) = 0" by simp
    with True show ?thesis by (simp add: poll_popup_Suc)
  next
    case False
    let ?w2 = "time_sleep (wm_after K E) 500 (snd (shell_AppActivate (wm_after K E) popup1 w))"
    have c2: "count_polls (trace ?w2) = Suc (count_polls (trace w))" by simp
    from False Suc.prems have "count_polls (trace ?w2) < K" "K \<le> count_polls (trace ?w2) + n"
      by simp_all
    then have "trace (poll_popup (wm_after K E) n ?w2) =
        trace ?w2 @ failed_polls (K - Suc (count_polls (trace ?w2))) @ [AppActivate popup1]"
      by (rule Suc.IH)
    moreover from False have "K - Suc (count_polls (trace w)) = Suc (K - Suc (count_polls (trace ?w2)))"
      unfolding c2 by simp
    ultimately show ?thesis using False
      by (simp add: poll_popup_Suc failed_polls_Suc)
  qed
qed

lemma count_polls_failed_polls [simp]: "count_polls (failed_polls m) = m"
  by (induction m) (simp_all add: failed_polls_Suc)

text \<open>The state of both responders when the loop and the check after it are done.\<close>

lemma after_wait_found:
  fixes E :: env and K :: nat and w :: world
  assumes "count_polls (trace w) = 0" and "1 \<le> K" and "K \<le> 21"
  defines "w4 \<equiv> shell_AppActivate (wm_after K E) popup1 (poll_popup (wm_after K E) 20 w)"
  shows "fst w4 = True" and
    "trace (snd w4) = trace w @ failed_polls (K - 1) @
       AppActivate popup1 # (if K \<le> 20 then [AppActivate popup1] else [])"
proof -
  show "fst w4 = True"
  proof (cases "K \<le> 20")
    case True
    with assms(1,2) have "trace (poll_popup (wm_after K E) 20 w) =
        trace w @ failed_polls (K - Suc (count_polls (trace w))) @ [AppActivate popup1]"
      by (intro poll_popup_found) simp_all
    with assms(1,2) show ?thesis by (simp add: w4_def)
  next
    case False
    with assms(1,3) have "trace (poll_popup (wm_after K E) 20 w) = trace w @ failed_polls 20"
      by (intro poll_popup_late) simp
    with assms(1,3) False show ?thesis by (simp add: w4_def)
  qed
  show "trace (snd w4) = trace w @ failed_polls (K - 1) @
       AppActivate popup1 # (if K \<le> 20 then [AppActivate popup1] else [])"
  proof (cases "K \<le> 20")
    case True
    with assms(1,2) have "trace (poll_popup (wm_after K E) 20 w) =
        trace w @ failed_polls (K - Suc (count_polls (trace w))) @ [AppActivate popup1]"
      by (intro poll_popup_found) simp_all
    with assms(1) True show ?thesis by (simp add: w4_def)
  next
    case False
    with assms(3) have "K = 21" by simp
    with assms(1) have "trace (poll_popup (wm_after K E) 20 w) = trace w @ failed_polls 20"
      by (intro poll_popup_late) simp
    with \<open>K = 21\<close> show ?thesis by (simp add: w4_def)
  qed
qed

lemma after_wait_timeout:
  fixes E :: env and K :: nat and w :: world
  assumes "count_polls (trace w) = 0" and "21 < K"
  defines "w4 \<equiv> shell_AppActivate (wm_after K E) popup1 (poll_popup (wm_after K E) 20 w)"
  shows "fst w4 = False" and
    "trace (snd w4) = trace w @ failed_polls 20 @ [AppActivate popup1]"
proof -
  from assms(1,2) have t: "trace (poll_popup (wm_after K E) 20 w) = trace w @ failed_polls 20"
    by (intro poll_popup_late) simp
  with assms(1,2) show "fst w4 = False" by (simp add: w4_def)
  from t show "trace (snd w4) = trace w @ failed_polls 20 @ [AppActivate popup1]"
    by (simp add: w4_def)
qed

lemma run_makecert_authority_fst:
  "fst (run_makecert_authority E cmd pw w) =
     (if fst (shell_AppActivate E popup1 (poll_popup E 20
            (shell_Run E cmd (LOG E DEBUG (''run_makecert_authority '' @ cmd) w))))
      then Inr () else Inl (RuntimeError ''timeout waiting for makecert popup(1)''))"
  by (simp add: run_makecert_authority_def Let_def case_prod_beta)

lemma run_makecert_authority_trace:
  "trace (snd (run_makecert_authority E cmd pw w)) =
     trace (snd (shell_AppActivate E popup1 (poll_popup E 20
            (shell_Run E cmd (LOG E DEBUG (''run_makecert_authority '' @ cmd) w))))) @
     (if fst (shell_AppActivate E popup1 (poll_popup E 20
            (shell_Run E cmd (LOG E DEBUG (''run_makecert_authority '' @ cmd) w))))
      then Sleep 200 # dialog1_keys pw @ dialogn_keys pw else [])"
  by (simp add: run_makecert_authority_def Let_def case_prod_beta dialog1_keys_def dialogn_keys_def)

lemma run_makecert_enduser_fst:
  "fst (run_makecert_enduser E cmd pw w) =
     (if fst (shell_AppActivate E popup1 (poll_popup E 20
            (shell_Run E cmd (LOG E DEBUG (''run_makecert_enduser '' @ cmd) w))))
      then Inr () else Inl (RuntimeError ''timeout waiting for makecert popup(1)''))"
  by (simp add: run_makecert_enduser_def Let_def case_prod_beta)

lemma run_makecert_enduser_trace:
  "trace (snd (run_makecert_enduser E cmd pw w)) =
     trace (snd (shell_AppActivate E popup1 (poll_popup E 20
            (shell_Run E cmd (LOG E DEBUG (''run_makecert_enduser '' @ cmd) w))))) @
     (if fst (shell_AppActivate E popup1 (poll_popup E 20
            (shell_Run E cmd (LOG E DEBUG (''run_makecert_enduser '' @ cmd) w))))
      then dialog1_keys pw @ dialogn_keys pw @ dialogn_keys pw else [])"
  by (simp add: run_makecert_enduser_def Let_def case_prod_beta dialog1_keys_def dialogn_keys_def)

lemma authority_found:
  assumes "count_polls (trace w) = 0" and "1 \<le> K" and "K \<le> 21"
  shows "fst (run_makecert_authority (wm_after K E) cmd pw w) = Inr ()"
    and "trace (snd (run_makecert_authority (wm_after K E) cmd pw w)) =
      trace w @ [Log DEBUG (''run_makecert_authority '' @ cmd), Run cmd] @ failed_polls (K - 1) @
      AppActivate popup1 # (if K \<le> 20 then [AppActivate popup1] else []) @
      Sleep 200 # dialog1_keys pw @ dialogn_keys pw"
proof -
  let ?w2 = "shell_Run (wm_after K E) cmd (LOG (wm_after K E) DEBUG (''run_makecert_authority '' @ cmd) w)"
  from assms(1) have c: "count_polls (trace ?w2) = 0" by simp
  note f = after_wait_found [OF c assms(2,3), of E]
  from f(1) show "fst (run_makecert_authority (wm_after K E) cmd pw w) = Inr ()"
    by (simp only: run_makecert_authority_fst if_True)
  from f show "trace (snd (run_makecert_authority (wm_after K E) cmd pw w)) =
      trace w @ [Log DEBUG (''run_makecert_authority '' @ cmd), Run cmd] @ failed_polls (K - 1) @
      AppActivate popup1 # (if K \<le> 20 then [AppActivate popup1] else []) @
      Sleep 200 # dialog1_keys pw @ dialogn_keys pw"
    by (simp add: run_makecert_authority_trace)
qed

lemma authority_timeout:
  assumes "count_polls (trace w) = 0" and "21 < K"
  shows "fst (run_makecert_authority (wm_after K E) cmd pw w) =
           Inl (RuntimeError ''timeout waiting for makecert popup(1)'')"
    and "trace (snd (run_makecert_authority (wm_after K E) cmd pw w)) =
      trace w @ [Log DEBUG (''run_makecert_authority '' @ cmd), Run cmd] @ failed_polls 20 @
      [AppActivate popup1]"
proof -
  let ?w2 = "shell_Run (wm_after K E) cmd (LOG (wm_after K E) DEBUG (''run_makecert_authority '' @ cmd) w)"
  from assms(1) have c: "count_polls (trace ?w2) = 0" by simp
  note f = after_wait_timeout [OF c assms(2), of E]
  from f(1) show "fst (run_makecert_authority (wm_after K E) cmd pw w) =
           Inl (RuntimeError ''timeout waiting for makecert popup(1)'')"
    by (simp add: run_makecert_authority_fst)
  from f show "trace (snd (run_makecert_authority (wm_after K E) cmd pw w)) =
      trace w @ [Log DEBUG (''run_makecert_authority '' @ cmd), Run cmd] @ failed_polls 20 @
      [AppActivate popup1]"
    by (simp add: run_makecert_authority_trace)
qed

lemma enduser_found:
  assumes "count_polls (trace w) = 0" and "1 \<le> K" and "K \<le> 21"
  shows "fst (run_makecert_enduser (wm_after K E) cmd pw w) = Inr ()"
    and "trace (snd (run_makecert_enduser (wm_after K E) cmd pw w)) =
      trace w @ [Log DEBUG (''run_makecert_enduser '' @ cmd), Run cmd] @ failed_polls (K - 1) @
      AppActivate popup1 # (if K \<le> 20 then [AppActivate popup1] else []) @
      dialog1_keys pw @ dialogn_keys pw @ dialogn_keys pw"
proof -
  let ?w2 = "shell_Run (wm_after K E) cmd (LOG (wm_after K E) DEBUG (''run_makecert_enduser '' @ cmd) w)"
  from assms(1) have c: "count_polls (trace ?w2) = 0" by simp
  note f = after_wait_found [OF c assms(2,3), of E]
  from f(1) show "fst (run_makecert_enduser (wm_after K E) cmd pw w) = Inr ()"
    by (simp only: run_makecert_enduser_fst if_True)
  from f show "trace (snd (run_makecert_enduser (wm_after K E) cmd pw w)) =
      trace w @ [Log DEBUG (''run_makecert_enduser '' @ cmd), Run cmd] @ failed_polls (K - 1) @
      AppActivate popup1 # (if K \<le> 20 then [AppActivate popup1] else []) @
      dialog1_keys pw @ dialogn_keys pw @ dialogn_keys pw"
    by (simp add: run_makecert_enduser_trace)
qed

lemma enduser_timeout:
  assumes "count_polls (trace w) = 0" and "21 < K"
  shows "fst (run_makecert_enduser (wm_after K E) cmd pw w) =
           Inl (RuntimeError ''timeout waiting for makecert popup(1)'')"
    and "trace (snd (run_makecert_enduser (wm_after K E) cmd pw w)) =
      trace w @ [Log DEBUG (''run_makecert_enduser '' @ cmd), Run cmd] @ failed_polls 20 @
      [AppActivate popup1]"
proof -
  let ?w2 = "shell_Run (wm_after K E) cmd (LOG (wm_after K E) DEBUG (''run_makecert_enduser '' @ cmd) w)"
  from assms(1) have c: "count_polls (trace ?w2) = 0" by simp
  note f = after_wait_timeout [OF c assms(2), of E]
  from f(1) show "fst (run_makecert_enduser (wm_after K E) cmd pw w) =
           Inl (RuntimeError ''timeout waiting for makecert popup(1)'')"
    by (simp add: run_makecert_enduser_fst)
  from f show "trace (snd (run_makecert_enduser (wm_after K E) cmd pw w)) =
      trace w @ [Log DEBUG (''run_makecert_enduser '' @ cmd), Run cmd] @ failed_polls 20 @
      [AppActivate popup1]"
    by (simp add: run_makecert_enduser_trace)
qed

lemma filter_keys_failed_polls [simp]: "filter is_keys (failed_polls m) = []"
  by (induction m) (simp_all add: failed_polls_Suc)

lemma schedule_simps [simp]:
  "schedule [] = []"
  "schedule (a @ b) = schedule a @ schedule b"
  "schedule (Log l m # tr) = schedule tr"
  "schedule (Run c # tr) = Run c # schedule tr"
  "schedule (AppActivate t # tr) = AppActivate t # schedule tr"
  "schedule (SendKeys k # tr) = SendKeys k # schedule tr"
  "schedule (Sleep n # tr) = Sleep n # schedule tr"
  by (simp_all add: schedule_def)

lemma trace_world0 [simp]: "trace world0 = []"
  by (simp add: world0_def)

section \<open>The claims about the popup responders\<close>

text \<open>
  C1 (amended). The claim gives the wait a budget of 20 polls. The loop does poll at most 20
  times, but the check after the loop calls AppActivate once more, so the popup is still caught
  at the 21st poll. For both \<open>run_makecert_authority\<close> and \<open>run_makecert_enduser\<close>, with a
  window manager that reports the popup from the \<open>K\<close>-th poll on (\<open>K \<ge> 1\<close>):
  if \<open>K \<le> 21\<close> the responder returns normally, exactly \<open>K - 1\<close> polls fail (each followed by a
  half-second sleep), the \<open>K\<close>-th poll finds the popup, for \<open>K \<le> 20\<close> the check after the loop
  activates the window once more, and then the keystroke schedule runs;
  if \<open>K > 21\<close> the responder raises the timeout error after 20 failed polls and the failed
  check, and sends no keystroke.
\<close>

theorem responders_wait_for_popup:
  assumes "count_polls (trace w) = 0" and "1 \<le> K"
  shows "(K \<le> 21 \<longrightarrow>
            fst (run_makecert_authority (wm_after K E) cmd pw w) = Inr () \<and>
            trace (snd (run_makecert_authority (wm_after K E) cmd pw w)) =
              trace w @ [Log DEBUG (''run_makecert_authority '' @ cmd), Run cmd] @
              failed_polls (K - 1) @
              AppActivate popup1 # (if K \<le> 20 then [AppActivate popup1] else []) @
              Sleep 200 # dialog1_keys pw @ dialogn_keys pw \<and>
            fst (run_makecert_enduser (wm_after K E) cmd pw w) = Inr () \<and>
            trace (snd (run_makecert_enduser (wm_after K E) cmd pw w)) =
              trace w @ [Log DEBUG (''run_makecert_enduser '' @ cmd), Run cmd] @
              failed_polls (K - 1) @
              AppActivate popup1 # (if K \<le> 20 then [AppActivate popup1] else []) @
              dialog1_keys pw @ dialogn_keys pw @ dialogn_keys pw) \<and>
         (21 < K \<longrightarrow>
            fst (run_makecert_authority (wm_after K E) cmd pw w) =
              Inl (RuntimeError ''timeout waiting for makecert popup(1)'') \<and>
            trace (snd (run_makecert_authority (wm_after K E) cmd pw w)) =
              trace w @ [Log DEBUG (''run_makecert_authority '' @ cmd), Run cmd] @
              failed_polls 20 @ [AppActivate popup1] \<and>
            filter is_keys (trace (snd (run_makecert_authority (wm_after K E) cmd pw w))) =
              filter is_keys (trace w) \<and>
            fst (run_makecert_enduser (wm_after K E) cmd pw w) =
              Inl (RuntimeError ''timeout waiting for makecert popup(1)'') \<and>
            trace (snd (run_makecert_enduser (wm_after K E) cmd pw w)) =
              trace w @ [Log DEBUG (''run_makecert_enduser '' @ cmd), Run cmd] @
              failed_polls 20 @ [AppActivate popup1] \<and>
            filter is_keys (trace (snd (run_makecert_enduser (wm_after K E) cmd pw w))) =
              filter is_keys (trace w))"
proof (intro conjI impI)
  assume "K \<le> 21"
  note a = authority_found [OF assms \<open>K \<le> 21\<close>, of E cmd pw]
  note e = enduser_found [OF assms \<open>K \<le> 21\<close>, of E cmd pw]
  show "fst (run_makecert_authority (wm_after K E) cmd pw w) = Inr ()" by (rule a(1))
  show "trace (snd (run_makecert_authority (wm_after K E) cmd pw w)) =
      trace w @ [Log DEBUG (''run_makecert_authority '' @ cmd), Run cmd] @ failed_polls (K - 1) @
      AppActivate popup1 # (if K \<le> 20 then [AppActivate popup1] else []) @
      Sleep 200 # dialog1_keys pw @ dialogn_keys pw" by (rule a(2))
  show "fst (run_makecert_enduser (wm_after K E) cmd pw w) = Inr ()" by (rule e(1))
  show "trace (snd (run_makecert_enduser (wm_after K E) cmd pw w)) =
      trace w @ [Log DEBUG (''run_makecert_enduser '' @ cmd), Run cmd] @ failed_polls (K - 1) @
      AppActivate popup1 # (if K \<le> 20 then [AppActivate popup1] else []) @
      dialog1_keys pw @ dialogn_keys pw @ dialogn_keys pw" by (rule e(2))
next
  assume "21 < K"
  note a = authority_timeout [OF assms(1) \<open>21 < K\<close>, of E cmd pw]
  note e = enduser_timeout [OF assms(1) \<open>21 < K\<close>, of E cmd pw]
  show "fst (run_makecert_authority (wm_after K E) cmd pw w) =
      Inl (RuntimeError ''timeout waiting for makecert popup(1)'')" by (rule a(1))
  show "trace (snd (run_makecert_authority (wm_after K E) cmd pw w)) =
      trace w @ [Log DEBUG (''run_makecert_authority '' @ cmd), Run cmd] @
      failed_polls 20 @ [AppActivate popup1]" by (rule a(2))
  show "filter is_keys (trace (snd (run_makecert_authority (wm_after K E) cmd pw w))) =
      filter is_keys (trace w)" by (simp add: a(2))
  show "fst (run_makecert_enduser (wm_after K E) cmd pw w) =
      Inl (RuntimeError ''timeout waiting for makecert popup(1)'')" by (rule e(1))
  show "trace (snd (run_makecert_enduser (wm_after K E) cmd pw w)) =
      trace w @ [Log DEBUG (''run_makecert_enduser '' @ cmd), Run cmd] @
      failed_polls 20 @ [AppActivate popup1]" by (rule e(2))
  show "filter is_keys (trace (snd (run_makecert_enduser (wm_after K E) cmd pw w))) =
      filter is_keys (trace w)" by (simp add: e(2))
qed

text \<open>
  The theorem at a popup that shows at the third poll (two failed polls, then the keystrokes of
  the two dialogs of the authority flow) and at one that shows at the 25th (timeout, no keys).
\<close>

theorem responders_wait_for_popup_witness:
  "count_polls (trace world0) = 0 \<and> (1::nat) \<le> 3 \<and> (3::nat) \<le> 21 \<and>
   fst (run_makecert_authority (wm_after 3 still_env) ''makecert'' ''pw'' world0) = Inr () \<and>
   trace (snd (run_makecert_authority (wm_after 3 still_env) ''makecert'' ''pw'' world0)) =
     [Log DEBUG ''run_makecert_authority makecert'', Run ''makecert'',
      AppActivate popup1, Sleep 500, AppActivate popup1, Sleep 500,
      AppActivate popup1, AppActivate popup1, Sleep 200,
      SendKeys ''pw'', Sleep 200, SendKeys ''{TAB}'', Sleep 200, SendKeys ''pw'', Sleep 200,
      SendKeys ''{TAB}'', Sleep 200, SendKeys ''{ENTER}'', Sleep 500,
      SendKeys ''pw'', Sleep 200, SendKeys ''{TAB}'', Sleep 200, SendKeys ''{ENTER}'', Sleep 500] \<and>
   (21::nat) < 25 \<and>
   fst (run_makecert_enduser (wm_after 25 still_env) ''makecert'' ''pw'' world0) =
     Inl (RuntimeError ''timeout waiting for makecert popup(1)'') \<and>
   filter is_keys (trace (snd (run_makecert_enduser (wm_after 25 still_env) ''makecert'' ''pw'' world0))) = []"
  using responders_wait_for_popup [of world0 3 still_env "''makecert''" "''pw''"]
    responders_wait_for_popup [of world0 25 still_env "''makecert''" "''pw''"]
  by (simp add: failed_polls_def dialog1_keys_def dialogn_keys_def eval_nat_numeral)

text \<open>
  C1 as stated fails at \<open>K = 21\<close>, which exceeds the budget of 20 polls: the claim has both
  responders raise the timeout error and send no keystroke there, but the check after the loop
  is the 21st poll, finds the popup, and the keystrokes are sent (8 by the authority flow, 11
  by the end-entity flow).
\<close>

theorem responders_poll_21_counterexample:
  "fst (run_makecert_authority (wm_after 21 still_env) ''makecert'' ''pw'' world0) = Inr () \<and>
   count_polls (trace (snd (run_makecert_authority (wm_after 21 still_env) ''makecert'' ''pw'' world0))) = 21 \<and>
   length (filter is_keys
     (trace (snd (run_makecert_authority (wm_after 21 still_env) ''makecert'' ''pw'' world0)))) = 8 \<and>
   fst (run_makecert_enduser (wm_after 21 still_env) ''makecert'' ''pw'' world0) = Inr () \<and>
   count_polls (trace (snd (run_makecert_enduser (wm_after 21 still_env) ''makecert'' ''pw'' world0))) = 21 \<and>
   length (filter is_keys
     (trace (snd (run_makecert_enduser (wm_after 21 still_env) ''makecert'' ''pw'' world0)))) = 11"
proof -
  have c: "count_polls (trace world0) = 0" by simp
  note a = authority_found [OF c, of 21 still_env "''makecert''" "''pw''"]
  note e = enduser_found [OF c, of 21 still_env "''makecert''" "''pw''"]
  from a e show ?thesis
    by (simp add: dialog1_keys_def dialogn_keys_def)
qed

text \<open>
  C9. The claim has the schedule of \<open>run_makecert_authority\<close> equal to that of
  \<open>run_makecert_enduser\<close> cut after its second dialog. The code differs: the authority flow
  sleeps 0.2 s between the activation of the popup and its first keystroke, and the
  end-entity flow sends its first keystroke at once. With the popup there at the first poll,
  the two schedules (the traces without the log lines) are as follows, and no initial part of
  the end-entity schedule is the authority schedule.
\<close>

theorem responder_schedules_differ:
  "schedule (trace (snd (run_makecert_authority (wm_after 1 still_env) ''makecert'' ''pw'' world0))) =
     [Run ''makecert'', AppActivate popup1, AppActivate popup1, Sleep 200,
      SendKeys ''pw'', Sleep 200, SendKeys ''{TAB}'', Sleep 200, SendKeys ''pw'', Sleep 200,
      SendKeys ''{TAB}'', Sleep 200, SendKeys ''{ENTER}'', Sleep 500,
      SendKeys ''pw'', Sleep 200, SendKeys ''{TAB}'', Sleep 200, SendKeys ''{ENTER}'', Sleep 500] \<and>
   schedule (trace (snd (run_makecert_enduser (wm_after 1 still_env) ''makecert'' ''pw'' world0))) =
     [Run ''makecert'', AppActivate popup1, AppActivate popup1,
      SendKeys ''pw'', Sleep 200, SendKeys ''{TAB}'', Sleep 200, SendKeys ''pw'', Sleep 200,
      SendKeys ''{TAB}'', Sleep 200, SendKeys ''{ENTER}'', Sleep 500,
      SendKeys ''pw'', Sleep 200, SendKeys ''{TAB}'', Sleep 200, SendKeys ''{ENTER}'', Sleep 500,
      SendKeys ''pw'', Sleep 200, SendKeys ''{TAB}'', Sleep 200, SendKeys ''{ENTER}'', Sleep 500] \<and>
   (\<forall>n. take n (schedule (trace (snd (run_makecert_enduser (wm_after 1 still_env) ''makecert'' ''pw'' world0)))) \<noteq>
        schedule (trace (snd (run_makecert_authority (wm_after 1 still_env) ''makecert'' ''pw'' world0))))"
proof -
  have c: "count_polls (trace world0) = 0" by simp
  note a = authority_found(2) [OF c, of 1 still_env "''makecert''" "''pw''"]
  note e = enduser_found(2) [OF c, of 1 still_env "''makecert''" "''pw''"]
  from a e show ?thesis
    by (simp add: dialog1_keys_def dialogn_keys_def take_Cons')
qed

section \<open>Facts about signing\<close>

lemma execs_simps [simp]:
  "execs [] = []"
  "execs (a @ b) = execs a @ execs b"
  "execs (Exec argv # h) = argv # execs h"
  "execs (Log l m # h) = execs h"
  "execs (RegQuery # h) = execs h"
  "execs (IsFile f ok # h) = execs h"
  "execs (Run c # h) = execs h"
  "execs (AppActivate t # h) = execs h"
  "execs (SendKeys k # h) = execs h"
  "execs (Sleep n # h) = execs h"
  "execs (Mkdtemp d # h) = execs h"
  "execs (Rmtree d # h) = execs h"
  "execs (Now # h) = execs h"
  by (simp_all add: execs_def List.map_filter_def)

lemma proc_tool_replies [simp]: "proc (tool_replies R E) h argv = R (length (execs h))"
  by (simp add: tool_replies_def)

lemma registry_tool_replies [simp]: "registry (tool_replies R E) = registry E"
  by (simp add: tool_replies_def)

lemma popen_communicate_simps [simp]:
  "fst (popen_communicate E argv w) = proc E (trace w) argv"
  "trace (snd (popen_communicate E argv w)) = trace w @ [Exec argv]"
  by (simp_all add: popen_communicate_def)

lemma sign_loop_Cons:
  "sign_loop E st exe pfx pw (u # us) w =
     (if fst (proc E (trace w) (sign_cmd st pfx pw u exe)) = 2
      then sign_loop E st exe pfx pw us
             (LOG E DEBUG (''failed to sign w/ timestamp url '' @ u)
                (snd (popen_communicate E (sign_cmd st pfx pw u exe) w)))
      else (Inr (),
            LOG E DEBUG (fst (snd (proc E (trace w) (sign_cmd st pfx pw u exe))))
              (if fst (proc E (trace w) (sign_cmd st pfx pw u exe)) \<noteq> 0
               then LOG E ERROR (snd (snd (proc E (trace w) (sign_cmd st pfx pw u exe))))
                      (LOG E INFO (fst (snd (proc E (trace w) (sign_cmd st pfx pw u exe))))
                         (snd (popen_communicate E (sign_cmd st pfx pw u exe) w)))
               else snd (popen_communicate E (sign_cmd st pfx pw u exe) w))))"
  by (simp add: popen_communicate_def split: prod.splits)

declare sign_loop.simps(2) [simp del]

lemma skipped_simps [simp]:
  "skipped st exe pfx pw [] = []"
  "skipped st exe pfx pw (u # us) =
     Exec (sign_cmd st pfx pw u exe) # Log DEBUG (''failed to sign w/ timestamp url '' @ u) #
     skipped st exe pfx pw us"
  by (simp_all add: skipped_def)

lemma execs_skipped [simp]:
  "execs (skipped st exe pfx pw us) = map (\<lambda>u. sign_cmd st pfx pw u exe) us"
  by (induction us) simp_all

text \<open>When every attempt left exits with code 2, the loop runs out and raises.\<close>

lemma sign_loop_exhausted:
  "\<forall>i<length us. fst (R (length (execs (trace w)) + i)) = 2 \<Longrightarrow>
   fst (sign_loop (tool_replies R E) st exe pfx pw us w) =
     Inl (RuntimeError (''retries exhausted signing '' @ exe)) \<and>
   trace (snd (sign_loop (tool_replies R E) st exe pfx pw us w)) =
     trace w @ skipped st exe pfx pw us"
proof (induction us arbitrary: w)
  case Nil
  then show ?case by simp
next
  case (Cons u us)
  let ?w1 = "LOG (tool_replies R E) DEBUG (''failed to sign w/ timestamp url '' @ u)
               (snd (popen_communicate (tool_replies R E) (sign_cmd st pfx pw u exe) w))"
  from Cons.prems have first: "fst (R (length (execs (trace w)))) = 2" by force
  have "\<forall>i<length us. fst (R (length (execs (trace ?w1)) + i)) = 2"
  proof (intro allI impI)
    fix i assume "i < length us"
    with Cons.prems have "fst (R (length (execs (trace w)) + Suc i)) = 2" by force
    then show "fst (R (length (execs (trace ?w1)) + i)) = 2" by simp
  qed
  from Cons.IH [OF this] first show ?case
    by (simp add: sign_loop_Cons)
qed

text \<open>The first attempt that exits with a code other than 2 ends the loop with a normal return.\<close>

lemma sign_loop_stops:
  "n < length us \<Longrightarrow> \<forall>i<n. fst (R (length (execs (trace w)) + i)) = 2 \<Longrightarrow>
   fst (R (length (execs (trace w)) + n)) \<noteq> 2 \<Longrightarrow>
   fst (sign_loop (tool_replies R E) st exe pfx pw us w) = Inr () \<and>
   trace (snd (sign_loop (tool_replies R E) st exe pfx pw us w)) =
     trace w @ skipped st exe pfx pw (take n us) @
     Exec (sign_cmd st pfx pw (us ! n) exe) #
     (if fst (R (length (execs (trace w)) + n)) \<noteq> 0
      then [Log INFO (fst (snd (R (length (execs (trace w)) + n)))),
            Log ERROR (snd (snd (R (length (execs (trace w)) + n))))]
      else []) @
     [Log DEBUG (fst (snd (R (length (execs (trace w)) + n))))]"
proof (induction us arbitrary: w n)
  case Nil
  then show ?case by simp
next
  case (Cons u us)
  show ?case
  proof (cases n)
    case 0
    with Cons.prems show ?thesis by (simp add: sign_loop_Cons)
  next
    case (Suc m)
    let ?w1 = "LOG (tool_replies R E) DEBUG (''failed to sign w/ timestamp url '' @ u)
                 (snd (popen_communicate (tool_replies R E) (sign_cmd st pfx pw u exe) w))"
    have len: "length (execs (trace ?w1)) = Suc (length (execs (trace w)))" by simp
    from Cons.prems Suc have first: "fst (R (length (execs (trace w)))) = 2" by force
    from Cons.prems Suc have m: "m < length us" by simp
    have skip: "\<forall>i<m. fst (R (length (execs (trace ?w1)) + i)) = 2"
    proof (intro allI impI)
      fix i assume "i < m"
      with Cons.prems(2) Suc have "fst (R (length (execs (trace w)) + Suc i)) = 2" by force
      then show "fst (R (length (execs (trace ?w1)) + i)) = 2" by (simp add: len)
    qed
    from Cons.prems(3) Suc have stop: "fst (R (length (execs (trace ?w1)) + m)) \<noteq> 2"
      by (simp add: len)
    from Cons.IH [OF m skip stop] first Suc show ?thesis
      by (simp add: sign_loop_Cons len)
  qed
qed

lemma get_winsdk_path_simps [simp]:
  "trace (snd (get_winsdk_path E w)) = trace w @ [RegQuery]"
  "registry E (trace w) = Some pth \<Longrightarrow> fst (get_winsdk_path E w) = Inr (unescape pth)"
  "registry E (trace w) = None \<Longrightarrow> fst (get_winsdk_path E w) =
     Inl (RuntimeError (''missing windows sdk registry entry: '' @ WINSDK_ERROR))"
  by (simp_all add: get_winsdk_path_def split: option.splits)

lemma bind_Inr: "fst (m w) = Inr x \<Longrightarrow> bind m f w = f x (snd (m w))"
  by (cases "m w") (simp add: bind_def)

lemma bind_Inl: "fst (m w) = Inl e \<Longrightarrow> bind m f w = (Inl e, snd (m w))"
  by (cases "m w") (simp add: bind_def)

lemma sign_code_stops:
  assumes "registry E (trace w) = Some sdk" and "execs (trace w) = []"
    and "n < length timestamp_urls" and "\<forall>i<n. fst (R i) = 2" and "fst (R n) \<noteq> 2"
  shows "fst (sign_code (tool_replies R E) exe pfx pw w) = Inr ()"
    and "trace (snd (sign_code (tool_replies R E) exe pfx pw w)) =
      trace w @ RegQuery #
      skipped (path_join (path_join (unescape sdk) ''Bin'') ''signtool.exe'') exe pfx pw
        (take n timestamp_urls) @
      Exec (sign_cmd (path_join (path_join (unescape sdk) ''Bin'') ''signtool.exe'') pfx pw
        (timestamp_urls ! n) exe) #
      (if fst (R n) \<noteq> 0 then [Log INFO (fst (snd (R n))), Log ERROR (snd (snd (R n)))] else []) @
      [Log DEBUG (fst (snd (R n)))]"
proof -
  let ?E = "tool_replies R E"
  let ?w1 = "snd (get_winsdk_path ?E w)"
  let ?st = "path_join (path_join (unescape sdk) ''Bin'') ''signtool.exe''"
  from assms(1) have g: "fst (get_winsdk_path ?E w) = Inr (unescape sdk)" by simp
  have sc: "sign_code ?E exe pfx pw w = sign_loop ?E ?st exe pfx pw timestamp_urls ?w1"
    using g by (cases "get_winsdk_path ?E w") (simp add: sign_code_def bind_def)
  from assms(2) have z: "length (execs (trace ?w1)) = 0" by simp
  from assms(4) have a: "\<forall>i<n. fst (R (length (execs (trace ?w1)) + i)) = 2"
    unfolding z by simp
  from assms(5) have b: "fst (R (length (execs (trace ?w1)) + n)) \<noteq> 2"
    unfolding z by simp
  note l = sign_loop_stops [OF assms(3) a b, of E ?st exe pfx pw]
  from l show "fst (sign_code ?E exe pfx pw w) = Inr ()"
    unfolding sc by blast
  from l have "trace (snd (sign_code ?E exe pfx pw w)) =
     trace ?w1 @ skipped ?st exe pfx pw (take n timestamp_urls) @
     Exec (sign_cmd ?st pfx pw (timestamp_urls ! n) exe) #
     (if fst (R (length (execs (trace ?w1)) + n)) \<noteq> 0
      then [Log INFO (fst (snd (R (length (execs (trace ?w1)) + n)))),
            Log ERROR (snd (snd (R (length (execs (trace ?w1)) + n))))]
      else []) @
     [Log DEBUG (fst (snd (R (length (execs (trace ?w1)) + n))))]"
    unfolding sc by blast
  then show "trace (snd (sign_code ?E exe pfx pw w)) =
      trace w @ RegQuery # skipped ?st exe pfx pw (take n timestamp_urls) @
      Exec (sign_cmd ?st pfx pw (timestamp_urls ! n) exe) #
      (if fst (R n) \<noteq> 0 then [Log INFO (fst (snd (R n))), Log ERROR (snd (snd (R n)))] else []) @
      [Log DEBUG (fst (snd (R n)))]"
    unfolding z by simp
qed

lemma sign_code_exhausted:
  assumes "registry E (trace w) = Some sdk" and "execs (trace w) = []"
    and "\<forall>i<length timestamp_urls. fst (R i) = 2"
  shows "fst (sign_code (tool_replies R E) exe pfx pw w) =
      Inl (RuntimeError (''retries exhausted signing '' @ exe))"
    and "trace (snd (sign_code (tool_replies R E) exe pfx pw w)) =
      trace w @ RegQuery #
      skipped (path_join (path_join (unescape sdk) ''Bin'') ''signtool.exe'') exe pfx pw
        timestamp_urls"
proof -
  let ?E = "tool_replies R E"
  let ?w1 = "snd (get_winsdk_path ?E w)"
  let ?st = "path_join (path_join (unescape sdk) ''Bin'') ''signtool.exe''"
  from assms(1) have g: "fst (get_winsdk_path ?E w) = Inr (unescape sdk)" by simp
  have sc: "sign_code ?E exe pfx pw w = sign_loop ?E ?st exe pfx pw timestamp_urls ?w1"
    using g by (cases "get_winsdk_path ?E w") (simp add: sign_code_def bind_def)
  from assms(2) have z: "length (execs (trace ?w1)) = 0" by simp
  from assms(3) have a: "\<forall>i<length timestamp_urls. fst (R (length (execs (trace ?w1)) + i)) = 2"
    unfolding z by simp
  note l = sign_loop_exhausted [OF a, of E ?st exe pfx pw]
  from l show "fst (sign_code ?E exe pfx pw w) =
      Inl (RuntimeError (''retries exhausted signing '' @ exe))"
    unfolding sc by blast
  from l show "trace (snd (sign_code ?E exe pfx pw w)) =
      trace w @ RegQuery # skipped ?st exe pfx pw timestamp_urls"
    unfolding sc by simp
qed

lemma registry_still_env [simp]: "registry still_env h = Some ''C:/SDK''"
  by (simp add: still_env_def)

lemma unescape_SDK [simp]: "unescape ''C:/SDK'' = ''C:/SDK''"
  by (simp add: bslash_def)

lemma length_timestamp_urls [simp]: "length timestamp_urls = 4"
  by (simp add: timestamp_urls_def)

section \<open>The claims about signing\<close>

text \<open>
  C2 (amended). In \<open>sign_code\<close> only exit code 2 advances to the next timestamp endpoint. An
  attempt that exits with any other code ends the loop with a normal return, whether the code
  is zero or not: when the attempts before attempt \<open>n\<close> exit with 2 and attempt \<open>n\<close> exits with
  \<open>rc \<noteq> 2\<close>, the function returns normally, attempt \<open>n\<close> is the last run of the signing tool
  (\<open>n + 1\<close> runs in all), and for \<open>rc \<noteq> 0\<close> its standard output is logged at INFO and its
  standard error at ERROR before the return.
\<close>

theorem sign_code_other_code_returns:
  assumes "registry E (trace w) = Some sdk" and "execs (trace w) = []"
    and "n < length timestamp_urls" and "\<forall>i<n. fst (R i) = 2"
    and "R n = (rc, out, err)" and "rc \<noteq> 2"
  shows "fst (sign_code (tool_replies R E) exe pfx pw w) = Inr () \<and>
    trace (snd (sign_code (tool_replies R E) exe pfx pw w)) =
      trace w @ RegQuery #
      skipped (path_join (path_join (unescape sdk) ''Bin'') ''signtool.exe'') exe pfx pw
        (take n timestamp_urls) @
      Exec (sign_cmd (path_join (path_join (unescape sdk) ''Bin'') ''signtool.exe'') pfx pw
        (timestamp_urls ! n) exe) #
      (if rc \<noteq> 0 then [Log INFO out, Log ERROR err] else []) @ [Log DEBUG out] \<and>
    length (execs (trace (snd (sign_code (tool_replies R E) exe pfx pw w)))) = Suc n"
proof -
  from assms(5,6) have ne: "fst (R n) \<noteq> 2" by simp
  note l = sign_code_stops [OF assms(1-4) ne, of exe pfx pw]
  from l(2) assms(5) have t: "trace (snd (sign_code (tool_replies R E) exe pfx pw w)) =
      trace w @ RegQuery #
      skipped (path_join (path_join (unescape sdk) ''Bin'') ''signtool.exe'') exe pfx pw
        (take n timestamp_urls) @
      Exec (sign_cmd (path_join (path_join (unescape sdk) ''Bin'') ''signtool.exe'') pfx pw
        (timestamp_urls ! n) exe) #
      (if rc \<noteq> 0 then [Log INFO out, Log ERROR err] else []) @ [Log DEBUG out]"
    by simp
  from assms(2,3) have "length (execs (trace (snd (sign_code (tool_replies R E) exe pfx pw w)))) = Suc n"
    unfolding t by simp
  with l(1) t show ?thesis by blast
qed

text \<open>
  The theorem where the first endpoint exits with 2 and the second with 1: two runs of the
  tool, the error logged, and a normal return.
\<close>

theorem sign_code_other_code_returns_witness:
  "registry still_env (trace world0) = Some ''C:/SDK'' \<and> execs (trace world0) = [] \<and>
   (1::nat) < length timestamp_urls \<and>
   fst (sign_code (tool_replies (\<lambda>i. if i = 0 then (2, [], []) else (1, ''out'', ''err'')) still_env)
          ''app.exe'' ''my.pfx'' ''pw'' world0) = Inr () \<and>
   length (execs (trace (snd (sign_code
      (tool_replies (\<lambda>i. if i = 0 then (2, [], []) else (1, ''out'', ''err'')) still_env)
          ''app.exe'' ''my.pfx'' ''pw'' world0)))) = 2 \<and>
   filter is_log (trace (snd (sign_code
      (tool_replies (\<lambda>i. if i = 0 then (2, [], []) else (1, ''out'', ''err'')) still_env)
          ''app.exe'' ''my.pfx'' ''pw'' world0))) =
     [Log DEBUG ''failed to sign w/ timestamp url http://timestamp.comodoca.com/authenticode'',
      Log INFO ''out'', Log ERROR ''err'', Log DEBUG ''out'']"
  using sign_code_other_code_returns [of still_env world0 "''C:/SDK''" 1
      "\<lambda>i. if i = 0 then (2, [], []) else (1, ''out'', ''err'')" 1 "''out''" "''err''"
      "''app.exe''" "''my.pfx''" "''pw''"]
  by (simp add: timestamp_urls_def bslash_def)

text \<open>
  C2 as stated fails when the first endpoint exits with code 1 (and every other endpoint would
  exit with 0): the claim has the loop advance to the second endpoint, but the signing tool is
  run once only, its output is logged, and \<open>sign_code\<close> returns normally.
\<close>

theorem sign_code_exit_1_counterexample:
  "fst (sign_code (tool_replies (\<lambda>i. if i = 0 then (1, ''out'', ''err'') else (0, [], [])) still_env)
          ''app.exe'' ''my.pfx'' ''pw'' world0) = Inr () \<and>
   execs (trace (snd (sign_code
      (tool_replies (\<lambda>i. if i = 0 then (1, ''out'', ''err'') else (0, [], [])) still_env)
          ''app.exe'' ''my.pfx'' ''pw'' world0))) =
     [sign_cmd (path_join (path_join ''C:/SDK'' ''Bin'') ''signtool.exe'') ''my.pfx'' ''pw''
        ''http://timestamp.comodoca.com/authenticode'' ''app.exe''] \<and>
   filter is_log (trace (snd (sign_code
      (tool_replies (\<lambda>i. if i = 0 then (1, ''out'', ''err'') else (0, [], [])) still_env)
          ''app.exe'' ''my.pfx'' ''pw'' world0))) =
     [Log INFO ''out'', Log ERROR ''err'', Log DEBUG ''out'']"
proof -
  let ?R = "\<lambda>i::nat. if i = 0 then (1::int, ''out'', ''err'') else (0, [], [])"
  have a: "registry still_env (trace world0) = Some ''C:/SDK''" by simp
  have b: "execs (trace world0) = []" by simp
  have c: "0 < length timestamp_urls" by simp
  have d: "\<forall>i<0::nat. fst (?R i) = 2" by simp
  have e: "fst (?R 0) \<noteq> 2" by simp
  from sign_code_stops [OF a b c d e, of "''app.exe''" "''my.pfx''" "''pw''"]
  show ?thesis by (simp add: timestamp_urls_def bslash_def)
qed

text \<open>
  C3 (amended: the endpoints that fail are those whose attempt exits with code 2). If the
  first \<open>N\<close> attempts exit with code 2 and attempt \<open>N + 1\<close> exits with code 0, \<open>sign_code\<close>
  returns normally after exactly \<open>N + 1\<close> runs of the signing tool, one for each of the first
  \<open>N + 1\<close> endpoints in order; if all four attempts exit with code 2, it raises the
  retries-exhausted error after exactly four runs, one for each endpoint in order.
\<close>

theorem sign_code_attempts:
  assumes "registry E (trace w) = Some sdk" and "execs (trace w) = []"
  shows "(N < length timestamp_urls \<and> (\<forall>i<N. fst (R i) = 2) \<and> fst (R N) = 0 \<longrightarrow>
            fst (sign_code (tool_replies R E) exe pfx pw w) = Inr () \<and>
            execs (trace (snd (sign_code (tool_replies R E) exe pfx pw w))) =
              map (\<lambda>turl. sign_cmd (path_join (path_join (unescape sdk) ''Bin'') ''signtool.exe'')
                             pfx pw turl exe) (take (Suc N) timestamp_urls) \<and>
            length (execs (trace (snd (sign_code (tool_replies R E) exe pfx pw w)))) = N + 1) \<and>
         ((\<forall>i<length timestamp_urls. fst (R i) = 2) \<longrightarrow>
            fst (sign_code (tool_replies R E) exe pfx pw w) =
              Inl (RuntimeError (''retries exhausted signing '' @ exe)) \<and>
            execs (trace (snd (sign_code (tool_replies R E) exe pfx pw w))) =
              map (\<lambda>turl. sign_cmd (path_join (path_join (unescape sdk) ''Bin'') ''signtool.exe'')
                             pfx pw turl exe) timestamp_urls \<and>
            length (execs (trace (snd (sign_code (tool_replies R E) exe pfx pw w)))) =
              length timestamp_urls)"
proof (intro conjI impI)
  assume h: "N < length timestamp_urls \<and> (\<forall>i<N. fst (R i) = 2) \<and> fst (R N) = 0"
  then have n: "N < length timestamp_urls" and s: "\<forall>i<N. fst (R i) = 2" and z: "fst (R N) \<noteq> 2"
    by simp_all
  note l = sign_code_stops [OF assms n s z, of exe pfx pw]
  show "fst (sign_code (tool_replies R E) exe pfx pw w) = Inr ()" by (rule l(1))
  from n assms(2) show e: "execs (trace (snd (sign_code (tool_replies R E) exe pfx pw w))) =
      map (\<lambda>turl. sign_cmd (path_join (path_join (unescape sdk) ''Bin'') ''signtool.exe'')
                     pfx pw turl exe) (take (Suc N) timestamp_urls)"
    unfolding l(2) by (simp add: take_Suc_conv_app_nth)
  from n show "length (execs (trace (snd (sign_code (tool_replies R E) exe pfx pw w)))) = N + 1"
    unfolding e by simp
next
  assume a: "\<forall>i<length timestamp_urls. fst (R i) = 2"
  note l = sign_code_exhausted [OF assms a, of exe pfx pw]
  show "fst (sign_code (tool_replies R E) exe pfx pw w) =
      Inl (RuntimeError (''retries exhausted signing '' @ exe))" by (rule l(1))
  from assms(2) show e: "execs (trace (snd (sign_code (tool_replies R E) exe pfx pw w))) =
      map (\<lambda>turl. sign_cmd (path_join (path_join (unescape sdk) ''Bin'') ''signtool.exe'')
                     pfx pw turl exe) timestamp_urls"
    unfolding l(2) by simp
  show "length (execs (trace (snd (sign_code (tool_replies R E) exe pfx pw w)))) =
      length timestamp_urls"
    unfolding e by simp
qed

text \<open>
  The theorem with two endpoints that exit with 2 before one that exits with 0 (three runs),
  and with all four endpoints exiting with 2 (four runs, then the error).
\<close>

theorem sign_code_attempts_witness:
  "registry still_env (trace world0) = Some ''C:/SDK'' \<and> execs (trace world0) = [] \<and>
   (2::nat) < length timestamp_urls \<and>
   fst (sign_code (tool_replies (\<lambda>i. if i < 2 then (2, [], []) else (0, ''ok'', [])) still_env)
          ''app.exe'' ''my.pfx'' ''pw'' world0) = Inr () \<and>
   length (execs (trace (snd (sign_code
      (tool_replies (\<lambda>i. if i < 2 then (2, [], []) else (0, ''ok'', [])) still_env)
          ''app.exe'' ''my.pfx'' ''pw'' world0)))) = 3 \<and>
   fst (sign_code (tool_replies (\<lambda>i. (2, [], [])) still_env) ''app.exe'' ''my.pfx'' ''pw'' world0) =
     Inl (RuntimeError ''retries exhausted signing app.exe'') \<and>
   length (execs (trace (snd (sign_code (tool_replies (\<lambda>i. (2, [], [])) still_env)
          ''app.exe'' ''my.pfx'' ''pw'' world0)))) = 4"
  using sign_code_attempts [of still_env world0 "''C:/SDK''" 2
      "\<lambda>i. if i < 2 then (2, [], []) else (0, ''ok'', [])" "''app.exe''" "''my.pfx''" "''pw''"]
    sign_code_attempts [of still_env world0 "''C:/SDK''" 0
      "\<lambda>i. (2, [], [])" "''app.exe''" "''my.pfx''" "''pw''"]
  by simp

text \<open>
  C3 as stated fails when the endpoints that fail do so with an exit code other than 2. Here
  the first two attempts would exit with code 1 and the third with code 0 (\<open>N = 2\<close>): the claim
  has three runs of the signing tool, the code returns after the first one.
\<close>

theorem sign_code_failing_endpoints_counterexample:
  "fst ((\<lambda>i::nat. if i < 2 then (1::int, [], ''error'') else (0, [], [])) 0) \<noteq> 0 \<and>
   fst ((\<lambda>i::nat. if i < 2 then (1::int, [], ''error'') else (0, [], [])) 1) \<noteq> 0 \<and>
   fst ((\<lambda>i::nat. if i < 2 then (1::int, [], ''error'') else (0, [], [])) 2) = 0 \<and>
   length (execs (trace (snd (sign_code
      (tool_replies (\<lambda>i. if i < 2 then (1, [], ''error'') else (0, [], [])) still_env)
          ''app.exe'' ''my.pfx'' ''pw'' world0)))) = 1"
proof -
  let ?R = "\<lambda>i::nat. if i < 2 then (1::int, [], ''error'') else (0, [], [])"
  have a: "registry still_env (trace world0) = Some ''C:/SDK''" by simp
  have b: "execs (trace world0) = []" by simp
  have c: "0 < length timestamp_urls" by simp
  have d: "\<forall>i<0::nat. fst (?R i) = 2" by simp
  have e: "fst (?R 0) \<noteq> 2" by simp
  from sign_code_stops(2) [OF a b c d e, of "''app.exe''" "''my.pfx''" "''pw''"]
  show ?thesis by simp
qed

section \<open>Facts about the removal from a store\<close>

lemma check_output_simps [simp]:
  "trace (snd (check_output E argv w)) = trace w @ [Exec argv]"
  "fst (check_output E argv w) =
     (if fst (proc E (trace w) argv) \<noteq> 0
      then Inl (CalledProcessError (fst (proc E (trace w) argv)) argv (fst (snd (proc E (trace w) argv))))
      else Inr (fst (snd (proc E (trace w) argv))))"
  by (simp_all add: check_output_def split: prod.splits)

lemma check_output_text_simps [simp]:
  "trace (snd (check_output_text E argv w)) = trace w @ [Exec argv]"
  "fst (check_output_text E argv w) =
     (if fst (proc E (trace w) argv) \<noteq> 0
      then Inl (CalledProcessError (fst (proc E (trace w) argv)) argv
                  (universal_newlines (fst (snd (proc E (trace w) argv)))))
      else Inr (universal_newlines (fst (snd (proc E (trace w) argv)))))"
  by (simp_all add: check_output_text_def split: prod.splits)

lemma delete_snums_Cons:
  "delete_snums E store (snum # rest) w =
     (case fst (check_output E [''certutil.exe'', ''-delstore'', store, snum]
                 (LOG E DEBUG (''delete certificate '' @ snum) w)) of
        Inl e \<Rightarrow> (Inl e, snd (check_output E [''certutil.exe'', ''-delstore'', store, snum]
                 (LOG E DEBUG (''delete certificate '' @ snum) w)))
      | Inr output \<Rightarrow> delete_snums E store rest
          (snd (check_output E [''certutil.exe'', ''-delstore'', store, snum]
                 (LOG E DEBUG (''delete certificate '' @ snum) w))))"
  by (cases "check_output E [''certutil.exe'', ''-delstore'', store, snum]
                 (LOG E DEBUG (''delete certificate '' @ snum) w)")
     (simp split: sum.splits)

declare delete_snums.simps(2) [simp del]

lemma deletions_simps [simp]:
  "deletions store [] = []"
  "deletions store (snum # rest) =
     Log DEBUG (''delete certificate '' @ snum) #
     Exec [''certutil.exe'', ''-delstore'', store, snum] # deletions store rest"
  by (simp_all add: deletions_def)

lemma deletions_append [simp]: "deletions store (a @ b) = deletions store a @ deletions store b"
  by (simp add: deletions_def)

lemma execs_deletions [simp]:
  "execs (deletions store snums) = map (\<lambda>snum. [''certutil.exe'', ''-delstore'', store, snum]) snums"
  by (induction snums) simp_all

text \<open>When every deletion exits with code 0, each serial number is deleted once, in order.\<close>

lemma delete_snums_ok:
  "\<forall>i<length snums. fst (R (length (execs (trace w)) + i)) = 0 \<Longrightarrow>
   fst (delete_snums (tool_replies R E) store snums w) = Inr () \<and>
   trace (snd (delete_snums (tool_replies R E) store snums w)) = trace w @ deletions store snums"
proof (induction snums arbitrary: w)
  case Nil
  then show ?case by simp
next
  case (Cons snum rest)
  let ?w1 = "snd (check_output (tool_replies R E) [''certutil.exe'', ''-delstore'', store, snum]
                 (LOG (tool_replies R E) DEBUG (''delete certificate '' @ snum) w))"
  from Cons.prems have first: "fst (R (length (execs (trace w)))) = 0" by force
  have "\<forall>i<length rest. fst (R (length (execs (trace ?w1)) + i)) = 0"
  proof (intro allI impI)
    fix i assume "i < length rest"
    with Cons.prems have "fst (R (length (execs (trace w)) + Suc i)) = 0" by force
    then show "fst (R (length (execs (trace ?w1)) + i)) = 0" by simp
  qed
  from Cons.IH [OF this] first show ?case
    by (simp add: delete_snums_Cons)
qed

text \<open>The first deletion that exits with another code is raised, and the loop ends there.\<close>

lemma delete_snums_fails:
  "n < length snums \<Longrightarrow> \<forall>i<n. fst (R (length (execs (trace w)) + i)) = 0 \<Longrightarrow>
   fst (R (length (execs (trace w)) + n)) \<noteq> 0 \<Longrightarrow>
   fst (delete_snums (tool_replies R E) store snums w) =
     Inl (CalledProcessError (fst (R (length (execs (trace w)) + n)))
            [''certutil.exe'', ''-delstore'', store, snums ! n]
            (fst (snd (R (length (execs (trace w)) + n))))) \<and>
   trace (snd (delete_snums (tool_replies R E) store snums w)) =
     trace w @ deletions store (take (Suc n) snums)"
proof (induction snums arbitrary: w n)
  case Nil
  then show ?case by simp
next
  case (Cons snum rest)
  show ?case
  proof (cases n)
    case 0
    with Cons.prems show ?thesis by (simp add: delete_snums_Cons)
  next
    case (Suc m)
    let ?w1 = "snd (check_output (tool_replies R E) [''certutil.exe'', ''-delstore'', store, snum]
                 (LOG (tool_replies R E) DEBUG (''delete certificate '' @ snum) w))"
    have len: "length (execs (trace ?w1)) = Suc (length (execs (trace w)))" by simp
    from Cons.prems Suc have first: "fst (R (length (execs (trace w)))) = 0" by force
    from Cons.prems Suc have m: "m < length rest" by simp
    have ok: "\<forall>i<m. fst (R (length (execs (trace ?w1)) + i)) = 0"
    proof (intro allI impI)
      fix i assume "i < m"
      with Cons.prems(2) Suc have "fst (R (length (execs (trace w)) + Suc i)) = 0" by force
      then show "fst (R (length (execs (trace ?w1)) + i)) = 0" by (simp add: len)
    qed
    from Cons.prems(3) Suc have bad: "fst (R (length (execs (trace ?w1)) + m)) \<noteq> 0"
      by (simp add: len)
    from Cons.IH [OF m ok bad] first Suc show ?thesis
      by (simp add: delete_snums_Cons len)
  qed
qed

lemma remove_cert_fromstore_unfold:
  "remove_cert_fromstore E certid store w =
     (if fst (proc E (trace w) [''certutil.exe'', ''-store'', store, certid]) \<noteq> 0
      then (Inl (CalledProcessError (fst (proc E (trace w) [''certutil.exe'', ''-store'', store, certid]))
                   [''certutil.exe'', ''-store'', store, certid]
                   (universal_newlines
                      (fst (snd (proc E (trace w) [''certutil.exe'', ''-store'', store, certid]))))),
            snd (check_output_text E [''certutil.exe'', ''-store'', store, certid] w))
      else if extract_snums (split_on newline (universal_newlines
                (fst (snd (proc E (trace w) [''certutil.exe'', ''-store'', store, certid]))))) = []
      then (Inl (RuntimeError (''no certificate with matching certid '' @ sq @ certid @ sq)),
            snd (check_output_text E [''certutil.exe'', ''-store'', store, certid] w))
      else delete_snums E store
             (extract_snums (split_on newline (universal_newlines
                (fst (snd (proc E (trace w) [''certutil.exe'', ''-store'', store, certid]))))))
             (snd (check_output_text E [''certutil.exe'', ''-store'', store, certid] w)))"
  by (cases "check_output_text E [''certutil.exe'', ''-store'', store, certid] w")
     (auto simp: remove_cert_fromstore_def bind_def check_output_text_def split: prod.splits)

text \<open>The four outcomes of \<open>remove_cert_fromstore\<close>, the listing being run number \<open>j\<close> of the tools.\<close>

lemma remove_cert_fromstore_query_fails:
  assumes "length (execs (trace w)) = j" and "fst (R j) \<noteq> 0"
  shows "fst (remove_cert_fromstore (tool_replies R E) certid store w) =
      Inl (CalledProcessError (fst (R j)) [''certutil.exe'', ''-store'', store, certid]
             (universal_newlines (fst (snd (R j)))))"
    and "trace (snd (remove_cert_fromstore (tool_replies R E) certid store w)) =
      trace w @ [Exec [''certutil.exe'', ''-store'', store, certid]]"
  using assms by (simp_all add: remove_cert_fromstore_unfold)

lemma remove_cert_fromstore_no_match:
  assumes "length (execs (trace w)) = j" and "fst (R j) = 0"
    and "extract_snums (split_on newline (universal_newlines (fst (snd (R j))))) = []"
  shows "fst (remove_cert_fromstore (tool_replies R E) certid store w) =
      Inl (RuntimeError (''no certificate with matching certid '' @ sq @ certid @ sq))"
    and "trace (snd (remove_cert_fromstore (tool_replies R E) certid store w)) =
      trace w @ [Exec [''certutil.exe'', ''-store'', store, certid]]"
  using assms by (simp_all add: remove_cert_fromstore_unfold)

lemma remove_cert_fromstore_ok:
  assumes "length (execs (trace w)) = j" and "fst (R j) = 0"
    and "extract_snums (split_on newline (universal_newlines (fst (snd (R j))))) = snums" and "snums \<noteq> []"
    and "\<forall>i<length snums. fst (R (Suc j + i)) = 0"
  shows "fst (remove_cert_fromstore (tool_replies R E) certid store w) = Inr ()"
    and "trace (snd (remove_cert_fromstore (tool_replies R E) certid store w)) =
      trace w @ Exec [''certutil.exe'', ''-store'', store, certid] # deletions store snums"
proof -
  let ?w1 = "snd (check_output_text (tool_replies R E) [''certutil.exe'', ''-store'', store, certid] w)"
  from assms(1) have len: "length (execs (trace ?w1)) = Suc j" by simp
  from assms(5) have "\<forall>i<length snums. fst (R (length (execs (trace ?w1)) + i)) = 0"
    unfolding len by simp
  note d = delete_snums_ok [OF this, of E store]
  from assms(1-4) d show "fst (remove_cert_fromstore (tool_replies R E) certid store w) = Inr ()"
    by (simp add: remove_cert_fromstore_unfold)
  from assms(1-4) d show "trace (snd (remove_cert_fromstore (tool_replies R E) certid store w)) =
      trace w @ Exec [''certutil.exe'', ''-store'', store, certid] # deletions store snums"
    by (simp add: remove_cert_fromstore_unfold)
qed

lemma remove_cert_fromstore_delete_fails:
  assumes "length (execs (trace w)) = j" and "fst (R j) = 0"
    and "extract_snums (split_on newline (universal_newlines (fst (snd (R j))))) = snums"
    and "n < length snums" and "\<forall>i<n. fst (R (Suc j + i)) = 0" and "fst (R (Suc j + n)) \<noteq> 0"
  shows "fst (remove_cert_fromstore (tool_replies R E) certid store w) =
      Inl (CalledProcessError (fst (R (Suc j + n))) [''certutil.exe'', ''-delstore'', store, snums ! n]
             (fst (snd (R (Suc j + n)))))"
    and "trace (snd (remove_cert_fromstore (tool_replies R E) certid store w)) =
      trace w @ Exec [''certutil.exe'', ''-store'', store, certid] #
      deletions store (take (Suc n) snums)"
proof -
  let ?w1 = "snd (check_output_text (tool_replies R E) [''certutil.exe'', ''-store'', store, certid] w)"
  from assms(1) have len: "length (execs (trace ?w1)) = Suc j" by simp
  from assms(5) have a: "\<forall>i<n. fst (R (length (execs (trace ?w1)) + i)) = 0"
    unfolding len by simp
  from assms(6) have b: "fst (R (length (execs (trace ?w1)) + n)) \<noteq> 0"
    unfolding len by simp
  from assms(4) have ne: "snums \<noteq> []" by auto
  note d = delete_snums_fails [OF assms(4) a b, of E store]
  from assms(1-3) ne d show "fst (remove_cert_fromstore (tool_replies R E) certid store w) =
      Inl (CalledProcessError (fst (R (Suc j + n))) [''certutil.exe'', ''-delstore'', store, snums ! n]
             (fst (snd (R (Suc j + n)))))"
    by (simp add: remove_cert_fromstore_unfold len del: take_Suc_Cons)
  from assms(1-3) ne d show "trace (snd (remove_cert_fromstore (tool_replies R E) certid store w)) =
      trace w @ Exec [''certutil.exe'', ''-store'', store, certid] #
      deletions store (take (Suc n) snums)"
    by (simp add: remove_cert_fromstore_unfold len del: take_Suc_Cons)
qed

lemma remove_ca_unfold:
  "remove_ca E certid w =
     (case fst (remove_cert_fromstore E certid ''Root'' w) of
        Inl e \<Rightarrow> (Inl e, snd (remove_cert_fromstore E certid ''Root'' w))
      | Inr u \<Rightarrow> remove_cert_fromstore E certid ''CA'' (snd (remove_cert_fromstore E certid ''Root'' w)))"
  by (cases "remove_cert_fromstore E certid ''Root'' w")
     (simp add: remove_ca_def bind_def split: sum.splits)

lemma split_on_no_sep: "l \<in> set (split_on c s) \<Longrightarrow> c \<notin> set l"
proof (induction s arbitrary: l)
  case Nil
  then show ?case by simp
next
  case (Cons x xs)
  show ?case
  proof (cases "x = c")
    case True
    with Cons show ?thesis by auto
  next
    case False
    show ?thesis
    proof (cases "split_on c xs")
      case Nil
      with False Cons.prems show ?thesis by simp
    next
      case (Cons l0 ls)
      then have "l0 \<in> set (split_on c xs)" and "set ls \<subseteq> set (split_on c xs)" by auto
      with Cons.IH have "c \<notin> set l0" and "\<forall>k\<in>set ls. c \<notin> set k" by auto
      with False Cons Cons.prems show ?thesis by auto
    qed
  qed
qed

lemma length_serial_prefix [simp]: "length ''Serial Number: '' = 15"
  by simp

lemma re_match_serial_15:
  "re_match_serial line =
     (if take 15 line = ''Serial Number: '' \<and> takeWhile hexd (drop 15 line) \<noteq> []
         \<and> (dropWhile hexd (drop 15 line) = [] \<or> dropWhile hexd (drop 15 line) = [newline])
      then Some (takeWhile hexd (drop 15 line)) else None)"
  unfolding re_match_serial_def Let_def length_serial_prefix by (rule refl)

text \<open>The class of the regular expression has the lower-case hexadecimal digits and no other.\<close>

lemma hexd_lower: "hexd c = lower_hex_digit c"
  by (auto simp: hexd_def lower_hex_digit_def)

lemma serial_line_hexd:
  "serial_line l = (take 15 l = ''Serial Number: '' \<and> drop 15 l \<noteq> [] \<and> list_all hexd (drop 15 l))"
  by (simp add: serial_line_def hexd_lower list_all_iff)

text \<open>On a line without a newline, the regular expression matches the lines of the pattern.\<close>

lemma re_match_serial_line:
  assumes "newline \<notin> set l"
  shows "re_match_serial l = (if serial_line l then Some (drop 15 l) else None)"
proof -
  have sub: "set (dropWhile hexd (drop 15 l)) \<subseteq> set l"
    by (meson set_dropWhileD set_drop_subset subsetD subsetI)
  have nonl: "dropWhile hexd (drop 15 l) \<noteq> [newline]"
  proof
    assume "dropWhile hexd (drop 15 l) = [newline]"
    with sub have "newline \<in> set l" by simp
    with assms show False by simp
  qed
  have all: "dropWhile hexd (drop 15 l) = [] \<longleftrightarrow> list_all hexd (drop 15 l)"
    by (simp add: dropWhile_eq_Nil_conv list_all_iff)
  show ?thesis
  proof (cases "list_all hexd (drop 15 l)")
    case True
    then have tw: "takeWhile hexd (drop 15 l) = drop 15 l"
      by (simp add: takeWhile_eq_all_conv list_all_iff)
    from True all have dw: "dropWhile hexd (drop 15 l) = []" by blast
    show ?thesis
      unfolding re_match_serial_15 serial_line_hexd tw dw using True by simp
  next
    case False
    with all have dw: "dropWhile hexd (drop 15 l) \<noteq> []" by blast
    show ?thesis
      unfolding re_match_serial_15 serial_line_hexd using False dw nonl by simp
  qed
qed

lemma extract_snums_filter:
  "\<forall>l\<in>set ls. newline \<notin> set l \<Longrightarrow> extract_snums ls = map (drop 15) (filter serial_line ls)"
  by (induction ls) (simp_all add: re_match_serial_line)

lemma extract_snums_split:
  "extract_snums (split_on newline output) =
     map (drop 15) (filter serial_line (split_on newline output))"
  by (rule extract_snums_filter) (simp add: split_on_no_sep)

lemma execs_world0 [simp]: "execs (trace world0) = []"
  by simp

section \<open>The claims about the removal from the stores\<close>

text \<open>
  C5 (amended). The pattern of the code has lower-case hexadecimal digits only. With the
  listing of the store given (the utility exits with code 0 and prints \<open>out\<close>) and \<open>ls\<close> the
  lines of the listing, after the newline translation, that are \<^verbatim>\<open>Serial Number: \<close> followed
  by one or more lower-case hexadecimal digits and nothing else:
  the serial numbers that \<open>remove_cert_fromstore\<close> extracts are the digits of the lines \<open>ls\<close>, in
  order, as many as there are such lines;
  when there is no such line, it raises the no-match error and has run the listing only;
  otherwise it goes on exactly as the deletion loop on the digits of the lines \<open>ls\<close>, and when
  every deletion exits with code 0 it returns after one deletion for each of the lines, so
  that the deletions are as many as the matching lines.
\<close>

theorem remove_cert_fromstore_serial_lines:
  assumes "length (execs (trace w)) = j" and "R j = (0, out, err)"
    and "filter serial_line (split_on newline (universal_newlines out)) = ls"
  shows "extract_snums (split_on newline (universal_newlines out)) = map (drop 15) ls \<and>
         length (extract_snums (split_on newline (universal_newlines out))) = length ls \<and>
         (ls = [] \<longrightarrow>
            fst (remove_cert_fromstore (tool_replies R E) certid store w) =
              Inl (RuntimeError (''no certificate with matching certid '' @ sq @ certid @ sq)) \<and>
            execs (trace (snd (remove_cert_fromstore (tool_replies R E) certid store w))) =
              execs (trace w) @ [[''certutil.exe'', ''-store'', store, certid]]) \<and>
         (ls \<noteq> [] \<longrightarrow>
            remove_cert_fromstore (tool_replies R E) certid store w =
              delete_snums (tool_replies R E) store (map (drop 15) ls)
                (snd (check_output_text (tool_replies R E)
                        [''certutil.exe'', ''-store'', store, certid] w))) \<and>
         (ls \<noteq> [] \<and> (\<forall>i<length ls. fst (R (Suc j + i)) = 0) \<longrightarrow>
            fst (remove_cert_fromstore (tool_replies R E) certid store w) = Inr () \<and>
            execs (trace (snd (remove_cert_fromstore (tool_replies R E) certid store w))) =
              execs (trace w) @ [''certutil.exe'', ''-store'', store, certid] #
              map (\<lambda>l. [''certutil.exe'', ''-delstore'', store, drop 15 l]) ls \<and>
            length (execs (trace (snd (remove_cert_fromstore (tool_replies R E) certid store w)))) =
              length (execs (trace w)) + 1 + length ls)"
proof -
  from assms(3) have ex: "extract_snums (split_on newline (universal_newlines out)) = map (drop 15) ls"
    by (simp add: extract_snums_split)
  from assms(2) have rc: "fst (R j) = 0" by simp
  from assms(2) ex have exR:
    "extract_snums (split_on newline (universal_newlines (fst (snd (R j))))) = map (drop 15) ls"
    by simp
  show ?thesis
  proof (intro conjI impI)
    show "extract_snums (split_on newline (universal_newlines out)) = map (drop 15) ls" by (rule ex)
    show "length (extract_snums (split_on newline (universal_newlines out))) = length ls"
      by (simp add: ex)
  next
    assume "ls = []"
    with exR have ex0: "extract_snums (split_on newline (universal_newlines (fst (snd (R j))))) = []"
      by simp
    from assms(1) rc ex0
    show "fst (remove_cert_fromstore (tool_replies R E) certid store w) =
        Inl (RuntimeError (''no certificate with matching certid '' @ sq @ certid @ sq))"
      by (simp add: remove_cert_fromstore_unfold)
    from assms(1) rc ex0
    show "execs (trace (snd (remove_cert_fromstore (tool_replies R E) certid store w))) =
        execs (trace w) @ [[''certutil.exe'', ''-store'', store, certid]]"
      by (simp add: remove_cert_fromstore_unfold)
  next
    assume "ls \<noteq> []"
    with assms(1) rc exR
    show "remove_cert_fromstore (tool_replies R E) certid store w =
        delete_snums (tool_replies R E) store (map (drop 15) ls)
          (snd (check_output_text (tool_replies R E) [''certutil.exe'', ''-store'', store, certid] w))"
      by (simp add: remove_cert_fromstore_unfold)
  next
    assume h: "ls \<noteq> [] \<and> (\<forall>i<length ls. fst (R (Suc j + i)) = 0)"
    then have ne: "map (drop 15) ls \<noteq> []"
      and ok: "\<forall>i<length (map (drop 15) ls). fst (R (Suc j + i)) = 0" by simp_all
    note l = remove_cert_fromstore_ok [where R = R and j = j, OF assms(1) rc exR ne ok,
        of E certid store]
    show "fst (remove_cert_fromstore (tool_replies R E) certid store w) = Inr ()" by (rule l(1))
    show e: "execs (trace (snd (remove_cert_fromstore (tool_replies R E) certid store w))) =
        execs (trace w) @ [''certutil.exe'', ''-store'', store, certid] #
        map (\<lambda>l. [''certutil.exe'', ''-delstore'', store, drop 15 l]) ls"
      unfolding l(2) by (simp add: comp_def)
    show "length (execs (trace (snd (remove_cert_fromstore (tool_replies R E) certid store w)))) =
        length (execs (trace w)) + 1 + length ls"
      unfolding e by simp
  qed
qed

text \<open>
  The theorem on a listing with the line ends of Windows that has two matching lines among
  five (one line has upper-case digits, one is indented): the two serial numbers are deleted,
  in order; and on a listing without a matching line, where the error is raised.
\<close>

theorem remove_cert_fromstore_serial_lines_witness:
  "length (execs (trace world0)) = 0 \<and>
   filter serial_line (split_on newline (universal_newlines crlf_listing)) =
     [''Serial Number: 0a1b'', ''Serial Number: ff''] \<and>
   fst (remove_cert_fromstore
          (tool_replies (\<lambda>i. if i = 0 then (0, crlf_listing, []) else (0, [], [])) still_env)
          ''abc'' ''Root'' world0) = Inr () \<and>
   execs (trace (snd (remove_cert_fromstore
          (tool_replies (\<lambda>i. if i = 0 then (0, crlf_listing, []) else (0, [], [])) still_env)
          ''abc'' ''Root'' world0))) =
     [[''certutil.exe'', ''-store'', ''Root'', ''abc''],
      [''certutil.exe'', ''-delstore'', ''Root'', ''0a1b''],
      [''certutil.exe'', ''-delstore'', ''Root'', ''ff'']] \<and>
   filter serial_line (split_on newline (universal_newlines ''CertUtil: no match'')) = [] \<and>
   fst (remove_cert_fromstore (tool_replies (\<lambda>i. (0, ''CertUtil: no match'', [])) still_env)
          ''abc'' ''Root'' world0) =
     Inl (RuntimeError (''no certificate with matching certid '' @ sq @ ''abc'' @ sq))"
proof -
  have x: "filter serial_line (split_on newline (universal_newlines crlf_listing)) =
     [''Serial Number: 0a1b'', ''Serial Number: ff'']"
    by (simp add: crlf_listing_def serial_line_def lower_hex_digit_def newline_def cr_def)
  have y: "filter serial_line (split_on newline (universal_newlines ''CertUtil: no match'')) = []"
    by (simp add: serial_line_def lower_hex_digit_def newline_def cr_def)
  have j: "length (execs (trace world0)) = 0" by simp
  have r: "(\<lambda>i::nat. if i = 0 then (0::int, crlf_listing, []) else (0, [], [])) 0 =
      (0, crlf_listing, [])" by simp
  have r': "(\<lambda>i::nat. (0::int, ''CertUtil: no match'', [])) 0 = (0, ''CertUtil: no match'', [])"
    by simp
  note t = remove_cert_fromstore_serial_lines [where w = world0 and j = 0
      and R = "\<lambda>i. if i = 0 then (0, crlf_listing, []) else (0, [], [])"
      and out = crlf_listing and err = "[]"
      and ls = "[''Serial Number: 0a1b'', ''Serial Number: ff'']"
      and E = still_env and certid = "''abc''" and store = "''Root''", OF j r x]
  note u = remove_cert_fromstore_serial_lines [where w = world0 and j = 0
      and R = "\<lambda>i. (0, ''CertUtil: no match'', [])" and out = "''CertUtil: no match''"
      and err = "[]" and ls = "[]" and E = still_env and certid = "''abc''" and store = "''Root''",
      OF j r' y]
  have h: "[''Serial Number: 0a1b'', ''Serial Number: ff''] \<noteq> [] \<and>
      (\<forall>i<length [''Serial Number: 0a1b'', ''Serial Number: ff''].
         fst ((\<lambda>i::nat. if i = 0 then (0::int, crlf_listing, []) else (0, [], [])) (Suc 0 + i)) = 0)"
    by simp
  from t h have a: "fst (remove_cert_fromstore
          (tool_replies (\<lambda>i. if i = 0 then (0, crlf_listing, []) else (0, [], [])) still_env)
          ''abc'' ''Root'' world0) = Inr ()"
    by blast
  from t h have "execs (trace (snd (remove_cert_fromstore
          (tool_replies (\<lambda>i. if i = 0 then (0, crlf_listing, []) else (0, [], [])) still_env)
          ''abc'' ''Root'' world0))) =
     execs (trace world0) @ [''certutil.exe'', ''-store'', ''Root'', ''abc''] #
       map (\<lambda>l. [''certutil.exe'', ''-delstore'', ''Root'', drop 15 l])
         [''Serial Number: 0a1b'', ''Serial Number: ff'']"
    by blast
  then have b: "execs (trace (snd (remove_cert_fromstore
          (tool_replies (\<lambda>i. if i = 0 then (0, crlf_listing, []) else (0, [], [])) still_env)
          ''abc'' ''Root'' world0))) =
     [[''certutil.exe'', ''-store'', ''Root'', ''abc''],
      [''certutil.exe'', ''-delstore'', ''Root'', ''0a1b''],
      [''certutil.exe'', ''-delstore'', ''Root'', ''ff'']]"
    by simp
  from u have c: "fst (remove_cert_fromstore (tool_replies (\<lambda>i. (0, ''CertUtil: no match'', [])) still_env)
          ''abc'' ''Root'' world0) =
     Inl (RuntimeError (''no certificate with matching certid '' @ sq @ ''abc'' @ sq))"
    by blast
  from j x y a b c show ?thesis by blast
qed

text \<open>
  C5 as stated fails on upper-case digits. The listing has one line that is
  \<^verbatim>\<open>Serial Number: \<close> followed by the hexadecimal digits 0A1B, so the claim has one serial number
  extracted; the pattern of the code does not match the line, no serial number is extracted,
  and \<open>remove_cert_fromstore\<close> raises the no-match error without a deletion.
\<close>

theorem remove_cert_fromstore_upper_case_counterexample:
  "length (filter claimed_serial_line
      (split_on newline (universal_newlines ''Serial Number: 0A1B''))) = 1 \<and>
   extract_snums (split_on newline (universal_newlines ''Serial Number: 0A1B'')) = [] \<and>
   fst (remove_cert_fromstore (tool_replies (\<lambda>i. (0, ''Serial Number: 0A1B'', [])) still_env)
          ''0A1B'' ''Root'' world0) =
     Inl (RuntimeError (''no certificate with matching certid '' @ sq @ ''0A1B'' @ sq)) \<and>
   execs (trace (snd (remove_cert_fromstore (tool_replies (\<lambda>i. (0, ''Serial Number: 0A1B'', []))
          still_env) ''0A1B'' ''Root'' world0))) =
     [[''certutil.exe'', ''-store'', ''Root'', ''0A1B'']]"
proof -
  have a: "length (filter claimed_serial_line
      (split_on newline (universal_newlines ''Serial Number: 0A1B''))) = 1"
    by (simp add: claimed_serial_line_def hex_digit_def newline_def cr_def)
  have b: "extract_snums (split_on newline (universal_newlines ''Serial Number: 0A1B'')) = []"
    by (simp add: re_match_serial_def hexd_def newline_def cr_def)
  have j: "length (execs (trace world0)) = 0" by simp
  have rc: "fst ((\<lambda>i::nat. (0::int, ''Serial Number: 0A1B'', [])) 0) = 0" by simp
  have ex: "extract_snums (split_on newline (universal_newlines
      (fst (snd ((\<lambda>i::nat. (0::int, ''Serial Number: 0A1B'', [])) 0))))) = []"
    unfolding fst_conv snd_conv by (rule b)
  note l = remove_cert_fromstore_no_match [where R = "\<lambda>i. (0, ''Serial Number: 0A1B'', [])"
      and j = 0 and w = world0, OF j rc ex, of still_env "''0A1B''" "''Root''"]
  from l(2) have e: "execs (trace (snd (remove_cert_fromstore
      (tool_replies (\<lambda>i. (0, ''Serial Number: 0A1B'', [])) still_env) ''0A1B'' ''Root'' world0))) =
     [[''certutil.exe'', ''-store'', ''Root'', ''0A1B'']]"
    by simp
  from a b l(1) e show ?thesis by blast
qed

text \<open>
  C10 (amended). With the listing of the store given (the utility exits with code 0 and
  prints \<open>output\<close>) and \<open>snums\<close> the serial numbers extracted from it:
  when \<open>snums\<close> is empty, \<open>remove_cert_fromstore\<close> raises the no-match error and has run the
  listing only, no deletion;
  when every deletion exits with code 0, it runs delete-by-serial exactly once for each
  extracted serial number, in the order of the output, and returns;
  when the deletion number \<open>n\<close> is the first to exit with another code, that error is raised
  (CalledProcessError), the deletions run are those of the first \<open>n + 1\<close> serial numbers in
  order, and the serial numbers after them are not deleted.
\<close>

theorem remove_cert_fromstore_deletions:
  assumes "length (execs (trace w)) = j" and "R j = (0, out, err)"
    and "extract_snums (split_on newline (universal_newlines out)) = snums"
  shows "(snums = [] \<longrightarrow>
            fst (remove_cert_fromstore (tool_replies R E) certid store w) =
              Inl (RuntimeError (''no certificate with matching certid '' @ sq @ certid @ sq)) \<and>
            execs (trace (snd (remove_cert_fromstore (tool_replies R E) certid store w))) =
              execs (trace w) @ [[''certutil.exe'', ''-store'', store, certid]]) \<and>
         (snums \<noteq> [] \<and> (\<forall>i<length snums. fst (R (Suc j + i)) = 0) \<longrightarrow>
            fst (remove_cert_fromstore (tool_replies R E) certid store w) = Inr () \<and>
            execs (trace (snd (remove_cert_fromstore (tool_replies R E) certid store w))) =
              execs (trace w) @ [''certutil.exe'', ''-store'', store, certid] #
              map (\<lambda>snum. [''certutil.exe'', ''-delstore'', store, snum]) snums) \<and>
         (n < length snums \<and> (\<forall>i<n. fst (R (Suc j + i)) = 0) \<and> fst (R (Suc j + n)) \<noteq> 0 \<longrightarrow>
            fst (remove_cert_fromstore (tool_replies R E) certid store w) =
              Inl (CalledProcessError (fst (R (Suc j + n)))
                     [''certutil.exe'', ''-delstore'', store, snums ! n]
                     (fst (snd (R (Suc j + n))))) \<and>
            execs (trace (snd (remove_cert_fromstore (tool_replies R E) certid store w))) =
              execs (trace w) @ [''certutil.exe'', ''-store'', store, certid] #
              map (\<lambda>snum. [''certutil.exe'', ''-delstore'', store, snum]) (take (Suc n) snums))"
proof -
  from assms(2) have rc: "fst (R j) = 0" by simp
  from assms(2,3) have ex: "extract_snums (split_on newline (universal_newlines (fst (snd (R j))))) = snums" by simp
  show ?thesis
  proof (intro conjI impI)
    assume e: "snums = []"
    with ex have ex0: "extract_snums (split_on newline (universal_newlines (fst (snd (R j))))) = []" by simp
    from assms(1) rc ex0
    show "fst (remove_cert_fromstore (tool_replies R E) certid store w) =
        Inl (RuntimeError (''no certificate with matching certid '' @ sq @ certid @ sq))"
      by (simp add: remove_cert_fromstore_unfold)
    from assms(1) rc ex0
    show "execs (trace (snd (remove_cert_fromstore (tool_replies R E) certid store w))) =
        execs (trace w) @ [[''certutil.exe'', ''-store'', store, certid]]"
      by (simp add: remove_cert_fromstore_unfold)
  next
    assume h: "snums \<noteq> [] \<and> (\<forall>i<length snums. fst (R (Suc j + i)) = 0)"
    then have ne: "snums \<noteq> []" and ok: "\<forall>i<length snums. fst (R (Suc j + i)) = 0" by simp_all
    note l = remove_cert_fromstore_ok [where R = R and j = j, OF assms(1) rc ex ne ok, of E certid store]
    show "fst (remove_cert_fromstore (tool_replies R E) certid store w) = Inr ()" by (rule l(1))
    show "execs (trace (snd (remove_cert_fromstore (tool_replies R E) certid store w))) =
        execs (trace w) @ [''certutil.exe'', ''-store'', store, certid] #
        map (\<lambda>snum. [''certutil.exe'', ''-delstore'', store, snum]) snums"
      unfolding l(2) by simp
  next
    assume h: "n < length snums \<and> (\<forall>i<n. fst (R (Suc j + i)) = 0) \<and> fst (R (Suc j + n)) \<noteq> 0"
    then have n: "n < length snums" and ok: "\<forall>i<n. fst (R (Suc j + i)) = 0"
      and bad: "fst (R (Suc j + n)) \<noteq> 0" by simp_all
    note l = remove_cert_fromstore_delete_fails [where R = R and j = j,
        OF assms(1) rc ex n ok bad, of E certid store]
    show "fst (remove_cert_fromstore (tool_replies R E) certid store w) =
        Inl (CalledProcessError (fst (R (Suc j + n)))
               [''certutil.exe'', ''-delstore'', store, snums ! n] (fst (snd (R (Suc j + n)))))"
      by (rule l(1))
    show "execs (trace (snd (remove_cert_fromstore (tool_replies R E) certid store w))) =
        execs (trace w) @ [''certutil.exe'', ''-store'', store, certid] #
        map (\<lambda>snum. [''certutil.exe'', ''-delstore'', store, snum]) (take (Suc n) snums)"
      unfolding l(2) by (simp del: take_Suc_Cons)
  qed
qed

text \<open>
  The theorem on a listing with two serial numbers whose deletions succeed (two deletions, in
  order), and on a listing without a serial number (the error, and the listing as only run).
\<close>

theorem remove_cert_fromstore_deletions_witness:
  "length (execs (trace world0)) = 0 \<and>
   extract_snums (split_on newline (universal_newlines (''Serial Number: 01'' @ [newline] @ ''Serial Number: 02''))) =
     [''01'', ''02''] \<and>
   fst (remove_cert_fromstore
      (tool_replies (\<lambda>i. if i = 0 then (0, ''Serial Number: 01'' @ [newline] @ ''Serial Number: 02'', [])
                          else (0, [], [])) still_env) ''abc'' ''Root'' world0) = Inr () \<and>
   execs (trace (snd (remove_cert_fromstore
      (tool_replies (\<lambda>i. if i = 0 then (0, ''Serial Number: 01'' @ [newline] @ ''Serial Number: 02'', [])
                          else (0, [], [])) still_env) ''abc'' ''Root'' world0))) =
     [[''certutil.exe'', ''-store'', ''Root'', ''abc''],
      [''certutil.exe'', ''-delstore'', ''Root'', ''01''],
      [''certutil.exe'', ''-delstore'', ''Root'', ''02'']] \<and>
   extract_snums (split_on newline (universal_newlines ''no match'')) = [] \<and>
   execs (trace (snd (remove_cert_fromstore
      (tool_replies (\<lambda>i. (0, ''no match'', [])) still_env) ''abc'' ''Root'' world0))) =
     [[''certutil.exe'', ''-store'', ''Root'', ''abc'']]"
proof -
  have x: "extract_snums (split_on newline (universal_newlines (''Serial Number: 01'' @ [newline] @ ''Serial Number: 02''))) =
     [''01'', ''02'']"
    by (simp add: re_match_serial_def hexd_def newline_def cr_def)
  have y: "extract_snums (split_on newline (universal_newlines ''no match'')) = []"
    by (simp add: re_match_serial_def hexd_def newline_def cr_def)
  from remove_cert_fromstore_deletions [where w = world0 and j = 0
      and R = "\<lambda>i. if i = 0 then (0, ''Serial Number: 01'' @ [newline] @ ''Serial Number: 02'', [])
                          else (0, [], [])"
      and out = "''Serial Number: 01'' @ [newline] @ ''Serial Number: 02''" and err = "[]"
      and snums = "[''01'', ''02'']" and E = still_env and certid = "''abc''" and store = "''Root''"
      and n = 0]
    remove_cert_fromstore_deletions [where w = world0 and j = 0
      and R = "\<lambda>i. (0, ''no match'', [])" and out = "''no match''" and err = "[]"
      and snums = "[]" and E = still_env and certid = "''abc''" and store = "''Root''" and n = 0]
    x y
  show ?thesis by (simp add: re_match_serial_def hexd_def newline_def cr_def)
qed

text \<open>
  C10 as stated fails when a deletion fails. The listing gives the serial numbers 01 and 02
  and the deletion of 01 exits with code 1: \<open>remove_cert_fromstore\<close> raises that error and
  never runs the deletion of 02, where the claim has one deletion for each extracted serial
  number.
\<close>

theorem remove_cert_fromstore_failed_delete_counterexample:
  "extract_snums (split_on newline (universal_newlines (''Serial Number: 01'' @ [newline] @ ''Serial Number: 02''))) =
     [''01'', ''02''] \<and>
   fst (remove_cert_fromstore
      (tool_replies (\<lambda>i. if i = 0 then (0, ''Serial Number: 01'' @ [newline] @ ''Serial Number: 02'', [])
                          else (1, ''denied'', [])) still_env) ''abc'' ''Root'' world0) =
     Inl (CalledProcessError 1 [''certutil.exe'', ''-delstore'', ''Root'', ''01''] ''denied'') \<and>
   execs (trace (snd (remove_cert_fromstore
      (tool_replies (\<lambda>i. if i = 0 then (0, ''Serial Number: 01'' @ [newline] @ ''Serial Number: 02'', [])
                          else (1, ''denied'', [])) still_env) ''abc'' ''Root'' world0))) =
     [[''certutil.exe'', ''-store'', ''Root'', ''abc''],
      [''certutil.exe'', ''-delstore'', ''Root'', ''01'']]"
proof -
  let ?R = "\<lambda>i::nat. if i = 0 then (0::int, ''Serial Number: 01'' @ [newline] @ ''Serial Number: 02'', [])
                          else (1, ''denied'', [])"
  have x: "extract_snums (split_on newline (universal_newlines (fst (snd (?R 0))))) = [''01'', ''02'']"
    by (simp add: re_match_serial_def hexd_def newline_def cr_def)
  have l: "length (execs (trace world0)) = 0" by simp
  have rc: "fst (?R 0) = 0" by simp
  have n: "0 < length [''01'', ''02'']" by simp
  have ok: "\<forall>i<0::nat. fst (?R (Suc 0 + i)) = 0" by simp
  have bad: "fst (?R (Suc 0 + 0)) \<noteq> 0" by simp
  from remove_cert_fromstore_delete_fails [where R = ?R and j = 0, OF l rc x n ok bad,
      of still_env "''abc''" "''Root''"] x
  show ?thesis by (simp add: re_match_serial_def hexd_def newline_def cr_def)
qed

text \<open>
  C4 (amended). \<open>remove_ca\<close> removes from the Root store first and from the CA store after
  it, and the no-match error of either store ends it: it signals the error as soon as one
  store reports no match. With a Root listing that has no serial number the error is raised
  and the CA store is never queried. With Root matches (all deleted) and a CA listing that
  has no serial number the error is raised after the Root deletions. It returns normally only
  when both stores report a match, after the deletions in both.
\<close>

theorem remove_ca_needs_both_stores:
  assumes "execs (trace w) = []" and "R 0 = (0, out_root, err_root)"
    and "extract_snums (split_on newline (universal_newlines out_root)) = sr"
  shows "(sr = [] \<longrightarrow>
            fst (remove_ca (tool_replies R E) certid w) =
              Inl (RuntimeError (''no certificate with matching certid '' @ sq @ certid @ sq)) \<and>
            execs (trace (snd (remove_ca (tool_replies R E) certid w))) =
              [[''certutil.exe'', ''-store'', ''Root'', certid]]) \<and>
         (sr \<noteq> [] \<and> (\<forall>i<length sr. fst (R (Suc i)) = 0) \<and>
          R (Suc (length sr)) = (0, out_ca, err_ca) \<and>
          extract_snums (split_on newline (universal_newlines out_ca)) = [] \<longrightarrow>
            fst (remove_ca (tool_replies R E) certid w) =
              Inl (RuntimeError (''no certificate with matching certid '' @ sq @ certid @ sq)) \<and>
            execs (trace (snd (remove_ca (tool_replies R E) certid w))) =
              [''certutil.exe'', ''-store'', ''Root'', certid] #
              map (\<lambda>snum. [''certutil.exe'', ''-delstore'', ''Root'', snum]) sr @
              [[''certutil.exe'', ''-store'', ''CA'', certid]]) \<and>
         (sr \<noteq> [] \<and> (\<forall>i<length sr. fst (R (Suc i)) = 0) \<and>
          R (Suc (length sr)) = (0, out_ca, err_ca) \<and>
          extract_snums (split_on newline (universal_newlines out_ca)) = sc \<and> sc \<noteq> [] \<and>
          (\<forall>i<length sc. fst (R (Suc (Suc (length sr)) + i)) = 0) \<longrightarrow>
            fst (remove_ca (tool_replies R E) certid w) = Inr () \<and>
            execs (trace (snd (remove_ca (tool_replies R E) certid w))) =
              [''certutil.exe'', ''-store'', ''Root'', certid] #
              map (\<lambda>snum. [''certutil.exe'', ''-delstore'', ''Root'', snum]) sr @
              [''certutil.exe'', ''-store'', ''CA'', certid] #
              map (\<lambda>snum. [''certutil.exe'', ''-delstore'', ''CA'', snum]) sc)"
proof -
  let ?E = "tool_replies R E"
  let ?w1 = "snd (remove_cert_fromstore ?E certid ''Root'' w)"
  from assms(1) have j: "length (execs (trace w)) = 0" by simp
  from assms(2) have rc: "fst (R 0) = 0" by simp
  from assms(2,3) have ex: "extract_snums (split_on newline (universal_newlines (fst (snd (R 0))))) = sr" by simp
  have root_ok: "fst (remove_cert_fromstore ?E certid ''Root'' w) = Inr () \<and>
      trace ?w1 = trace w @ Exec [''certutil.exe'', ''-store'', ''Root'', certid] # deletions ''Root'' sr"
    if "sr \<noteq> []" and "\<forall>i<length sr. fst (R (Suc i)) = 0"
  proof -
    from that(2) have ok: "\<forall>i<length sr. fst (R (Suc 0 + i)) = 0" by simp
    from remove_cert_fromstore_ok [where R = R and j = 0, OF j rc ex that(1) ok, of E certid "''Root''"]
    show ?thesis by blast
  qed
  show ?thesis
  proof (intro conjI impI)
    assume "sr = []"
    with ex have ex0: "extract_snums (split_on newline (universal_newlines (fst (snd (R 0))))) = []" by simp
    note l = remove_cert_fromstore_no_match [where R = R and j = 0, OF j rc ex0, of E certid "''Root''"]
    from l(1) show "fst (remove_ca ?E certid w) =
        Inl (RuntimeError (''no certificate with matching certid '' @ sq @ certid @ sq))"
      by (simp add: remove_ca_unfold)
    from l assms(1) show "execs (trace (snd (remove_ca ?E certid w))) =
        [[''certutil.exe'', ''-store'', ''Root'', certid]]"
      by (simp add: remove_ca_unfold)
  next
    assume h: "sr \<noteq> [] \<and> (\<forall>i<length sr. fst (R (Suc i)) = 0) \<and>
          R (Suc (length sr)) = (0, out_ca, err_ca) \<and>
          extract_snums (split_on newline (universal_newlines out_ca)) = []"
    then have r: "fst (remove_cert_fromstore ?E certid ''Root'' w) = Inr ()"
      and t: "trace ?w1 = trace w @ Exec [''certutil.exe'', ''-store'', ''Root'', certid] # deletions ''Root'' sr"
      using root_ok by simp_all
    from t assms(1) have j1: "length (execs (trace ?w1)) = Suc (length sr)" by simp
    from h have rc1: "fst (R (Suc (length sr))) = 0"
      and ex1: "extract_snums (split_on newline (universal_newlines (fst (snd (R (Suc (length sr))))))) = []" by simp_all
    note l = remove_cert_fromstore_no_match [where R = R and j = "Suc (length sr)",
        OF j1 rc1 ex1, of E certid "''CA''"]
    from r l(1) show "fst (remove_ca ?E certid w) =
        Inl (RuntimeError (''no certificate with matching certid '' @ sq @ certid @ sq))"
      by (simp add: remove_ca_unfold)
    from r l(2) t assms(1) show "execs (trace (snd (remove_ca ?E certid w))) =
        [''certutil.exe'', ''-store'', ''Root'', certid] #
        map (\<lambda>snum. [''certutil.exe'', ''-delstore'', ''Root'', snum]) sr @
        [[''certutil.exe'', ''-store'', ''CA'', certid]]"
      by (simp add: remove_ca_unfold)
  next
    assume h: "sr \<noteq> [] \<and> (\<forall>i<length sr. fst (R (Suc i)) = 0) \<and>
          R (Suc (length sr)) = (0, out_ca, err_ca) \<and>
          extract_snums (split_on newline (universal_newlines out_ca)) = sc \<and> sc \<noteq> [] \<and>
          (\<forall>i<length sc. fst (R (Suc (Suc (length sr)) + i)) = 0)"
    then have r: "fst (remove_cert_fromstore ?E certid ''Root'' w) = Inr ()"
      and t: "trace ?w1 = trace w @ Exec [''certutil.exe'', ''-store'', ''Root'', certid] # deletions ''Root'' sr"
      using root_ok by simp_all
    from t assms(1) have j1: "length (execs (trace ?w1)) = Suc (length sr)" by simp
    from h have rc1: "fst (R (Suc (length sr))) = 0"
      and ex1: "extract_snums (split_on newline (universal_newlines (fst (snd (R (Suc (length sr))))))) = sc"
      and ne: "sc \<noteq> []"
      and ok: "\<forall>i<length sc. fst (R (Suc (Suc (length sr)) + i)) = 0" by simp_all
    note l = remove_cert_fromstore_ok [where R = R and j = "Suc (length sr)",
        OF j1 rc1 ex1 ne ok, of E certid "''CA''"]
    from r l(1) show "fst (remove_ca ?E certid w) = Inr ()"
      by (simp add: remove_ca_unfold)
    from r l(2) t assms(1) show "execs (trace (snd (remove_ca ?E certid w))) =
        [''certutil.exe'', ''-store'', ''Root'', certid] #
        map (\<lambda>snum. [''certutil.exe'', ''-delstore'', ''Root'', snum]) sr @
        [''certutil.exe'', ''-store'', ''CA'', certid] #
        map (\<lambda>snum. [''certutil.exe'', ''-delstore'', ''CA'', snum]) sc"
      by (simp add: remove_ca_unfold)
  qed
qed

text \<open>
  The theorem with one match in each store (the listing of Root, its deletion, the listing of
  CA, its deletion, and a normal return), and with no match in the Root store.
\<close>

theorem remove_ca_needs_both_stores_witness:
  "execs (trace world0) = [] \<and>
   extract_snums (split_on newline (universal_newlines ''Serial Number: 0a'')) = [''0a''] \<and>
   fst (remove_ca (tool_replies (\<lambda>i. if i = 0 \<or> i = 2 then (0, ''Serial Number: 0a'', [])
                                      else (0, [], [])) still_env) ''abc'' world0) = Inr () \<and>
   execs (trace (snd (remove_ca (tool_replies (\<lambda>i. if i = 0 \<or> i = 2 then (0, ''Serial Number: 0a'', [])
                                      else (0, [], [])) still_env) ''abc'' world0))) =
     [[''certutil.exe'', ''-store'', ''Root'', ''abc''],
      [''certutil.exe'', ''-delstore'', ''Root'', ''0a''],
      [''certutil.exe'', ''-store'', ''CA'', ''abc''],
      [''certutil.exe'', ''-delstore'', ''CA'', ''0a'']] \<and>
   extract_snums (split_on newline (universal_newlines ''no match'')) = [] \<and>
   execs (trace (snd (remove_ca (tool_replies (\<lambda>i. (0, ''no match'', [])) still_env) ''abc'' world0))) =
     [[''certutil.exe'', ''-store'', ''Root'', ''abc'']]"
proof -
  have x: "extract_snums (split_on newline (universal_newlines ''Serial Number: 0a'')) = [''0a'']"
    by (simp add: re_match_serial_def hexd_def newline_def cr_def)
  have y: "extract_snums (split_on newline (universal_newlines ''no match'')) = []"
    by (simp add: re_match_serial_def hexd_def newline_def cr_def)
  from remove_ca_needs_both_stores [where w = world0
      and R = "\<lambda>i. if i = 0 \<or> i = 2 then (0, ''Serial Number: 0a'', []) else (0, [], [])"
      and out_root = "''Serial Number: 0a''" and err_root = "[]" and sr = "[''0a'']"
      and out_ca = "''Serial Number: 0a''" and err_ca = "[]" and sc = "[''0a'']"
      and E = still_env and certid = "''abc''"]
    remove_ca_needs_both_stores [where w = world0
      and R = "\<lambda>i. (0, ''no match'', [])"
      and out_root = "''no match''" and err_root = "[]" and sr = "[]"
      and out_ca = "''no match''" and err_ca = "[]" and sc = "[]"
      and E = still_env and certid = "''abc''"]
    x y
  show ?thesis by (simp add: re_match_serial_def hexd_def newline_def cr_def)
qed

text \<open>
  C4 as stated fails in both directions. With a match in the Root store only, the claim has
  the removal proceed without error: the code deletes the Root match and then raises the
  no-match error for the CA store. With a match in the CA store only, the code raises the
  no-match error for the Root store and never queries the CA store.
\<close>

theorem remove_ca_one_store_counterexample:
  "fst (remove_ca (tool_replies (\<lambda>i. if i = 0 then (0, ''Serial Number: 0a'', [])
                                      else (0, ''no match'', [])) still_env) ''abc'' world0) =
     Inl (RuntimeError (''no certificate with matching certid '' @ sq @ ''abc'' @ sq)) \<and>
   execs (trace (snd (remove_ca (tool_replies (\<lambda>i. if i = 0 then (0, ''Serial Number: 0a'', [])
                                      else (0, ''no match'', [])) still_env) ''abc'' world0))) =
     [[''certutil.exe'', ''-store'', ''Root'', ''abc''],
      [''certutil.exe'', ''-delstore'', ''Root'', ''0a''],
      [''certutil.exe'', ''-store'', ''CA'', ''abc'']] \<and>
   fst (remove_ca (tool_replies (\<lambda>i. if i = 0 then (0, ''no match'', [])
                                      else (0, ''Serial Number: 0a'', [])) still_env) ''abc'' world0) =
     Inl (RuntimeError (''no certificate with matching certid '' @ sq @ ''abc'' @ sq)) \<and>
   execs (trace (snd (remove_ca (tool_replies (\<lambda>i. if i = 0 then (0, ''no match'', [])
                                      else (0, ''Serial Number: 0a'', [])) still_env) ''abc'' world0))) =
     [[''certutil.exe'', ''-store'', ''Root'', ''abc'']]"
proof -
  let ?R = "\<lambda>i::nat. if i = 0 then (0::int, ''Serial Number: 0a'', []) else (0, ''no match'', [])"
  let ?Q = "\<lambda>i::nat. if i = 0 then (0::int, ''no match'', []) else (0, ''Serial Number: 0a'', [])"
  let ?w1 = "snd (remove_cert_fromstore (tool_replies ?R still_env) ''abc'' ''Root'' world0)"
  have x: "extract_snums (split_on newline (universal_newlines ''Serial Number: 0a'')) = [''0a'']"
    by (simp add: re_match_serial_def hexd_def newline_def cr_def)
  have y: "extract_snums (split_on newline (universal_newlines ''no match'')) = []"
    by (simp add: re_match_serial_def hexd_def newline_def cr_def)
  have j: "length (execs (trace world0)) = 0" by simp
  have a: "fst (remove_cert_fromstore (tool_replies ?R still_env) ''abc'' ''Root'' world0) = Inr ()"
    and b: "trace ?w1 = [Exec [''certutil.exe'', ''-store'', ''Root'', ''abc''],
        Log DEBUG ''delete certificate 0a'', Exec [''certutil.exe'', ''-delstore'', ''Root'', ''0a'']]"
    using remove_cert_fromstore_ok [where R = ?R and j = 0 and snums = "[''0a'']" and w = world0,
        of still_env "''abc''" "''Root''"] x
    by (simp_all add: re_match_serial_def hexd_def newline_def cr_def)
  from b have j1: "length (execs (trace ?w1)) = 2" by simp
  have c: "fst (remove_cert_fromstore (tool_replies ?R still_env) ''abc'' ''CA'' ?w1) =
      Inl (RuntimeError (''no certificate with matching certid '' @ sq @ ''abc'' @ sq))"
    and d: "trace (snd (remove_cert_fromstore (tool_replies ?R still_env) ''abc'' ''CA'' ?w1)) =
      trace ?w1 @ [Exec [''certutil.exe'', ''-store'', ''CA'', ''abc'']]"
    using remove_cert_fromstore_no_match [where R = ?R and j = 2 and w = ?w1,
        of still_env "''abc''" "''CA''"] j1 y
    by (simp_all add: re_match_serial_def hexd_def newline_def cr_def)
  have e: "fst (remove_cert_fromstore (tool_replies ?Q still_env) ''abc'' ''Root'' world0) =
      Inl (RuntimeError (''no certificate with matching certid '' @ sq @ ''abc'' @ sq))"
    and f: "trace (snd (remove_cert_fromstore (tool_replies ?Q still_env) ''abc'' ''Root'' world0)) =
      [Exec [''certutil.exe'', ''-store'', ''Root'', ''abc'']]"
    using remove_cert_fromstore_no_match [where R = ?Q and j = 0 and w = world0,
        of still_env "''abc''" "''Root''"] y
    by (simp_all add: re_match_serial_def hexd_def newline_def cr_def)
  from a b c d e f show ?thesis
    by (simp add: remove_ca_unfold re_match_serial_def hexd_def newline_def cr_def)
qed

section \<open>Facts about the creation of an authority\<close>

lemma checks_simps [simp]:
  "checks [] = []"
  "checks (a @ c) = checks a @ checks c"
  "checks (IsFile f ok # h) = (f, ok) # checks h"
  "checks (Exec argv # h) = checks h"
  "checks (Log l m # h) = checks h"
  "checks (RegQuery # h) = checks h"
  "checks (Run cmd # h) = checks h"
  "checks (AppActivate t # h) = checks h"
  "checks (SendKeys k # h) = checks h"
  "checks (Sleep n # h) = checks h"
  "checks (Mkdtemp d # h) = checks h"
  "checks (Rmtree d # h) = checks h"
  "checks (Now # h) = checks h"
  by (simp_all add: checks_def List.map_filter_def)

lemma polling_quiet:
  assumes "polling P"
  shows "checks P = []" and "execs P = []" and "filter is_keys P = []"
proof -
  from assms have "\<forall>e\<in>set P. e = AppActivate popup1 \<or> e = Sleep 500"
    by (auto simp: polling_def)
  then show "checks P = []" and "execs P = []" and "filter is_keys P = []"
    by (induction P) auto
qed

lemma poll_popup_polling: "\<exists>P. trace (poll_popup E n w) = trace w @ P \<and> polling P"
proof (induction n arbitrary: w)
  case 0
  show ?case by (simp add: polling_def)
next
  case (Suc n)
  let ?w2 = "time_sleep E 500 (snd (shell_AppActivate E popup1 w))"
  from Suc.IH [of ?w2] obtain P where
    P: "trace (poll_popup E n ?w2) = trace ?w2 @ P" "polling P" by blast
  show ?case
  proof (cases "activate E (trace w) popup1")
    case True
    then have "trace (poll_popup E (Suc n) w) = trace w @ [AppActivate popup1]"
      by (simp add: poll_popup_Suc)
    moreover have "polling [AppActivate popup1]" by (simp add: polling_def)
    ultimately show ?thesis by blast
  next
    case False
    with P(1) have "trace (poll_popup E (Suc n) w) = trace w @ (AppActivate popup1 # Sleep 500 # P)"
      by (simp add: poll_popup_Suc)
    moreover from P(2) have "polling (AppActivate popup1 # Sleep 500 # P)" by (simp add: polling_def)
    ultimately show ?thesis by blast
  qed
qed

lemma authority_outcome:
  "\<exists>P. polling P \<and>
     ((fst (run_makecert_authority E cmd pw w) = Inl (RuntimeError ''timeout waiting for makecert popup(1)'') \<and>
       trace (snd (run_makecert_authority E cmd pw w)) =
         trace w @ Log DEBUG (''run_makecert_authority '' @ cmd) # Run cmd # P) \<or>
      (fst (run_makecert_authority E cmd pw w) = Inr () \<and>
       trace (snd (run_makecert_authority E cmd pw w)) =
         trace w @ Log DEBUG (''run_makecert_authority '' @ cmd) # Run cmd # P @
         Sleep 200 # dialog1_keys pw @ dialogn_keys pw))"
proof -
  let ?w2 = "shell_Run E cmd (LOG E DEBUG (''run_makecert_authority '' @ cmd) w)"
  from poll_popup_polling [of E 20 ?w2] obtain P where
    P: "trace (poll_popup E 20 ?w2) = trace ?w2 @ P" "polling P" by blast
  from P(2) have Q: "polling (P @ [AppActivate popup1])" by (simp add: polling_def)
  show ?thesis
  proof (cases "fst (shell_AppActivate E popup1 (poll_popup E 20 ?w2))")
    case True
    with P(1) have "fst (run_makecert_authority E cmd pw w) = Inr () \<and>
       trace (snd (run_makecert_authority E cmd pw w)) =
         trace w @ Log DEBUG (''run_makecert_authority '' @ cmd) # Run cmd # (P @ [AppActivate popup1]) @
         Sleep 200 # dialog1_keys pw @ dialogn_keys pw"
      by (simp add: run_makecert_authority_fst run_makecert_authority_trace)
    with Q show ?thesis by blast
  next
    case False
    with P(1) have "fst (run_makecert_authority E cmd pw w) = Inl (RuntimeError ''timeout waiting for makecert popup(1)'') \<and>
       trace (snd (run_makecert_authority E cmd pw w)) =
         trace w @ Log DEBUG (''run_makecert_authority '' @ cmd) # Run cmd # (P @ [AppActivate popup1])"
      by (simp add: run_makecert_authority_fst run_makecert_authority_trace)
    with Q show ?thesis by blast
  qed
qed

lemma os_path_isfile_trace [simp]:
  "trace (snd (os_path_isfile E f w)) = trace w @ [IsFile f (fst (os_path_isfile E f w))]"
  by (simp add: os_path_isfile_def tick_def split: prod.splits)

lemma confirm_and_add:
  fixes E msg p c argv w
  defines "B \<equiv> bind (confirm_output E msg [p, c]) (\<lambda>u.
                 bind (check_output E argv) (\<lambda>output w. (Inr (), w))) w"
  shows "(fst B = Inl (RuntimeError (msg @ p)) \<and> trace (snd B) = trace w @ [IsFile p False])
    \<or> (fst B = Inl (RuntimeError (msg @ c)) \<and> trace (snd B) = trace w @ [IsFile p True, IsFile c False])
    \<or> ((fst B = Inr () \<or> (\<exists>rc out. rc \<noteq> 0 \<and> fst B = Inl (CalledProcessError rc argv out))) \<and>
        trace (snd B) = trace w @ [IsFile p True, IsFile c True, Exec argv])"
proof -
  let ?a = "os_path_isfile E p w"
  let ?b = "os_path_isfile E c (snd ?a)"
  let ?d = "check_output E argv (snd ?b)"
  have ta: "trace (snd ?a) = trace w @ [IsFile p (fst ?a)]" by simp
  have tb: "trace (snd ?b) = trace w @ [IsFile p (fst ?a), IsFile c (fst ?b)]" by simp
  have td: "trace (snd ?d) = trace w @ [IsFile p (fst ?a), IsFile c (fst ?b), Exec argv]" by simp
  have B: "B = (if \<not> fst ?a then (Inl (RuntimeError (msg @ p)), snd ?a)
            else if \<not> fst ?b then (Inl (RuntimeError (msg @ c)), snd ?b)
            else (case fst ?d of Inl e \<Rightarrow> (Inl e, snd ?d) | Inr out \<Rightarrow> (Inr (), snd ?d)))"
    unfolding B_def
    by (cases ?a; cases ?b; cases ?d) (simp add: bind_def split: sum.splits)
  show ?thesis
  proof (cases "fst ?a")
    case False
    with B ta show ?thesis by simp
  next
    case a: True
    show ?thesis
    proof (cases "fst ?b")
      case False
      with a B tb show ?thesis by simp
    next
      case b: True
      from a b B td have t: "trace (snd B) = trace w @ [IsFile p True, IsFile c True, Exec argv]"
        by (simp split: sum.splits)
      have "fst B = Inr () \<or> (\<exists>rc out. rc \<noteq> 0 \<and> fst B = Inl (CalledProcessError rc argv out))"
        using a b B by (auto split: sum.splits if_splits)
      with t show ?thesis by blast
    qed
  qed
qed


lemma bind_cases:
  "bind m f w = (case fst (m w) of Inl e \<Rightarrow> (Inl e, snd (m w)) | Inr x \<Rightarrow> f x (snd (m w)))"
  by (cases "m w") (simp add: bind_def split: sum.splits)

section \<open>The claims about the creation of an authority\<close>

text \<open>
  C6 (amended). For every invocation of \<open>make_ca\<close>, in every world, with \<open>T\<close> the events of
  the invocation:
  a normal return means that the check after the run found both files (the key file, then the
  certificate file) and that the certificate was then added to the Root store, by the last
  action of the invocation;
  when the popup responder did not complete (no keystroke was sent: the SDK is not registered,
  makecert.exe is missing, a date is out of range, or the popup timed out) an error is raised
  and the add-to-store step is not performed;
  when the responder completed, either a file is missing at the check, the error raised names
  the first missing file and the add-to-store step is not performed, or both files are there
  and the add-to-store step runs, and \<open>make_ca\<close> returns normally unless that step itself exits
  with a nonzero code, which is raised. There is no silent partial success.
\<close>

theorem make_ca_outcomes:
  "\<exists>T. trace (snd (make_ca E subject pw pvk cer h w)) = trace w @ T \<and>
     (fst (make_ca E subject pw pvk cer h w) = Inr () \<longrightarrow>
        (\<exists>mk. checks T = [(mk, True), (pvk, True), (cer, True)]) \<and>
        execs T = [[''certutil.exe'', ''-addstore'', ''Root'', cer]] \<and>
        last T = Exec [''certutil.exe'', ''-addstore'', ''Root'', cer]) \<and>
     (filter is_keys T = [] \<longrightarrow>
        (\<exists>e. fst (make_ca E subject pw pvk cer h w) = Inl e) \<and> execs T = []) \<and>
     (filter is_keys T \<noteq> [] \<longrightarrow>
        ((\<exists>mk. checks T = [(mk, True), (pvk, False)]) \<and>
         fst (make_ca E subject pw pvk cer h w) =
           Inl (RuntimeError (''makecert(CA) did not create '' @ pvk)) \<and>
         execs T = []) \<or>
        ((\<exists>mk. checks T = [(mk, True), (pvk, True), (cer, False)]) \<and>
         fst (make_ca E subject pw pvk cer h w) =
           Inl (RuntimeError (''makecert(CA) did not create '' @ cer)) \<and>
         execs T = []) \<or>
        ((\<exists>mk. checks T = [(mk, True), (pvk, True), (cer, True)]) \<and>
         execs T = [[''certutil.exe'', ''-addstore'', ''Root'', cer]] \<and>
         last T = Exec [''certutil.exe'', ''-addstore'', ''Root'', cer] \<and>
         (fst (make_ca E subject pw pvk cer h w) = Inr () \<or>
          (\<exists>rc out. rc \<noteq> 0 \<and> fst (make_ca E subject pw pvk cer h w) =
             Inl (CalledProcessError rc [''certutil.exe'', ''-addstore'', ''Root'', cer] out)))))"
proof -
  let ?A = "make_ca E subject pw pvk cer h w"
  let ?add = "[''certutil.exe'', ''-addstore'', ''Root'', cer]"
  let ?msg = "''makecert(CA) did not create ''"
  show ?thesis
  proof (cases "registry E (trace w)")
    case None
    then have "fst ?A = Inl (RuntimeError (''missing windows sdk registry entry: '' @ WINSDK_ERROR))"
      and "trace (snd ?A) = trace w @ [RegQuery]"
      by (simp_all add: make_ca_def bind_cases)
    then show ?thesis by (intro exI [of _ "[RegQuery]"]) simp
  next
    case (Some sdk)
    let ?w1 = "snd (get_winsdk_path E w)"
    let ?mk = "path_join (path_join (unescape sdk) ''Bin'') ''makecert.exe''"
    let ?f = "os_path_isfile E ?mk ?w1"
    let ?w3 = "tick E Now (snd ?f)"
    let ?tail = "\<lambda>u. bind (confirm_output E ?msg [pvk, cer]) (\<lambda>u.
                   bind (check_output E ?add) (\<lambda>output w. (Inr (), w)))"
    have t3: "trace ?w3 = trace w @ [RegQuery, IsFile ?mk (fst ?f), Now]" by simp
    have A1: "?A = (if \<not> fst ?f
        then (Inl (AssertionError (''missing '' @ sq @ ?mk @ sq)), snd ?f)
        else (case make_ca_dates (clock E (trace (snd ?f))) h of
                Inl e \<Rightarrow> (Inl e, ?w3)
              | Inr (beg_date, end_date) \<Rightarrow>
                  bind (run_makecert_authority E
                          (make_ca_cmd ?mk beg_date end_date subject pvk cer) pw) ?tail ?w3))"
      using Some by (simp add: make_ca_def bind_cases datetime_now_def case_prod_beta)
    show ?thesis
    proof (cases "fst ?f")
      case False
      with A1 have "fst ?A = Inl (AssertionError (''missing '' @ sq @ ?mk @ sq))"
        and "trace (snd ?A) = trace w @ [RegQuery, IsFile ?mk False]"
        by simp_all
      then show ?thesis by (intro exI [of _ "[RegQuery, IsFile ?mk False]"]) simp
    next
      case f: True
      show ?thesis
      proof (cases "make_ca_dates (clock E (trace (snd ?f))) h")
        case (Inl e)
        with f A1 t3 have "fst ?A = Inl e"
          and "trace (snd ?A) = trace w @ [RegQuery, IsFile ?mk True, Now]"
          by simp_all
        then show ?thesis by (intro exI [of _ "[RegQuery, IsFile ?mk True, Now]"]) simp
      next
        case (Inr dates)
        obtain beg_date end_date where d: "dates = (beg_date, end_date)" by (cases dates)
        let ?cmd = "make_ca_cmd ?mk beg_date end_date subject pvk cer"
        let ?r = "run_makecert_authority E ?cmd pw ?w3"
        from f A1 Inr d have A2: "?A = bind (run_makecert_authority E ?cmd pw) ?tail ?w3"
          by simp
        from authority_outcome [of E ?cmd pw ?w3] obtain P where P: "polling P"
          and r: "(fst ?r = Inl (RuntimeError ''timeout waiting for makecert popup(1)'') \<and>
                   trace (snd ?r) = trace ?w3 @ Log DEBUG (''run_makecert_authority '' @ ?cmd) # Run ?cmd # P) \<or>
                  (fst ?r = Inr () \<and>
                   trace (snd ?r) = trace ?w3 @ Log DEBUG (''run_makecert_authority '' @ ?cmd) # Run ?cmd # P @
                     Sleep 200 # dialog1_keys pw @ dialogn_keys pw)"
          by blast
        note q = polling_quiet [OF P]
        from r show ?thesis
        proof
          assume to: "fst ?r = Inl (RuntimeError ''timeout waiting for makecert popup(1)'') \<and>
                   trace (snd ?r) = trace ?w3 @ Log DEBUG (''run_makecert_authority '' @ ?cmd) # Run ?cmd # P"
          let ?T = "[RegQuery, IsFile ?mk True, Now] @
                    Log DEBUG (''run_makecert_authority '' @ ?cmd) # Run ?cmd # P"
          from to A2 have "fst ?A = Inl (RuntimeError ''timeout waiting for makecert popup(1)'')"
            by (simp add: bind_cases)
          moreover from to A2 t3 f have "trace (snd ?A) = trace w @ ?T"
            by (simp add: bind_cases)
          ultimately show ?thesis using q
            by (intro exI [of _ ?T]) simp
        next
          assume ok: "fst ?r = Inr () \<and>
                   trace (snd ?r) = trace ?w3 @ Log DEBUG (''run_makecert_authority '' @ ?cmd) # Run ?cmd # P @
                     Sleep 200 # dialog1_keys pw @ dialogn_keys pw"
          let ?pre = "[RegQuery, IsFile ?mk True, Now] @
                    Log DEBUG (''run_makecert_authority '' @ ?cmd) # Run ?cmd # P @
                     Sleep 200 # dialog1_keys pw @ dialogn_keys pw"
          let ?B = "?tail () (snd ?r)"
          from ok A2 have AB: "?A = ?B" by (simp add: bind_cases)
          from ok t3 f have tr: "trace (snd ?r) = trace w @ ?pre" by simp
          have pre: "checks ?pre = [(?mk, True)]" "execs ?pre = []" "filter is_keys ?pre \<noteq> []"
            using q by (simp_all add: dialog1_keys_def dialogn_keys_def)
          from confirm_and_add [of E ?msg pvk cer ?add "snd ?r"]
          consider
            (nopvk) "fst ?B = Inl (RuntimeError (?msg @ pvk))"
              "trace (snd ?B) = trace (snd ?r) @ [IsFile pvk False]"
          | (nocer) "fst ?B = Inl (RuntimeError (?msg @ cer))"
              "trace (snd ?B) = trace (snd ?r) @ [IsFile pvk True, IsFile cer False]"
          | (added) "fst ?B = Inr () \<or> (\<exists>rc out. rc \<noteq> 0 \<and> fst ?B = Inl (CalledProcessError rc ?add out))"
              "trace (snd ?B) = trace (snd ?r) @ [IsFile pvk True, IsFile cer True, Exec ?add]"
            by blast
          then show ?thesis
          proof cases
            case nopvk
            define T where "T = ?pre @ [IsFile pvk False]"
            from nopvk tr have 1: "trace (snd ?A) = trace w @ T" unfolding AB T_def by simp
            have 2: "checks T = [(?mk, True), (pvk, False)]" "execs T = []" "filter is_keys T \<noteq> []"
              unfolding T_def using pre by simp_all
            from nopvk have 3: "fst ?A = Inl (RuntimeError (?msg @ pvk))" unfolding AB by simp
            show ?thesis
              by (rule exI [of _ T]) (simp add: 1 2 3)
          next
            case nocer
            define T where "T = ?pre @ [IsFile pvk True, IsFile cer False]"
            from nocer tr have 1: "trace (snd ?A) = trace w @ T" unfolding AB T_def by simp
            have 2: "checks T = [(?mk, True), (pvk, True), (cer, False)]" "execs T = []"
              "filter is_keys T \<noteq> []"
              unfolding T_def using pre by simp_all
            from nocer have 3: "fst ?A = Inl (RuntimeError (?msg @ cer))" unfolding AB by simp
            show ?thesis
              by (rule exI [of _ T]) (simp add: 1 2 3)
          next
            case added
            define T where "T = ?pre @ [IsFile pvk True, IsFile cer True, Exec ?add]"
            from added tr have 1: "trace (snd ?A) = trace w @ T" unfolding AB T_def by simp
            have 2: "checks T = [(?mk, True), (pvk, True), (cer, True)]" "execs T = [?add]"
              "filter is_keys T \<noteq> []" "last T = Exec ?add"
              unfolding T_def using pre by simp_all
            from added have 3: "fst ?A = Inr () \<or>
                (\<exists>rc out. rc \<noteq> 0 \<and> fst ?A = Inl (CalledProcessError rc ?add out))"
              unfolding AB by simp
            show ?thesis
              by (rule exI [of _ T]) (use 3 in \<open>auto simp: 1 2\<close>)
          qed
        qed
      qed
    qed
  qed
qed


text \<open>
  The theorem in a world where the popup shows at the first poll and both files are there:
  \<open>make_ca\<close> returns normally, both files were found, and the add-to-store step ran last.
\<close>

theorem make_ca_outcomes_witness:
  "fst (make_ca (wm_after 1 still_env) ''CA'' ''pw'' ''ca.pvk'' ''ca.cer'' 24 ca_world) = Inr () \<and>
   (\<exists>T mk. trace (snd (make_ca (wm_after 1 still_env) ''CA'' ''pw'' ''ca.pvk'' ''ca.cer'' 24 ca_world)) =
        trace ca_world @ T \<and>
      filter is_keys T \<noteq> [] \<and>
      checks T = [(mk, True), (''ca.pvk'', True), (''ca.cer'', True)] \<and>
      execs T = [[''certutil.exe'', ''-addstore'', ''Root'', ''ca.cer'']] \<and>
      last T = Exec [''certutil.exe'', ''-addstore'', ''Root'', ''ca.cer''])"
proof -
  have r: "fst (make_ca (wm_after 1 still_env) ''CA'' ''pw'' ''ca.pvk'' ''ca.cer'' 24 ca_world) = Inr ()"
    by code_simp
  from make_ca_outcomes [of "wm_after 1 still_env" "''CA''" "''pw''" "''ca.pvk''" "''ca.cer''" 24 ca_world]
  obtain T where T: "trace (snd (make_ca (wm_after 1 still_env) ''CA'' ''pw'' ''ca.pvk'' ''ca.cer'' 24 ca_world)) =
        trace ca_world @ T"
    and ok: "fst (make_ca (wm_after 1 still_env) ''CA'' ''pw'' ''ca.pvk'' ''ca.cer'' 24 ca_world) = Inr () \<longrightarrow>
        (\<exists>mk. checks T = [(mk, True), (''ca.pvk'', True), (''ca.cer'', True)]) \<and>
        execs T = [[''certutil.exe'', ''-addstore'', ''Root'', ''ca.cer'']] \<and>
        last T = Exec [''certutil.exe'', ''-addstore'', ''Root'', ''ca.cer'']"
    and quiet: "filter is_keys T = [] \<longrightarrow>
        (\<exists>e. fst (make_ca (wm_after 1 still_env) ''CA'' ''pw'' ''ca.pvk'' ''ca.cer'' 24 ca_world) = Inl e) \<and>
        execs T = []"
    by blast
  from quiet r have "filter is_keys T \<noteq> []" by auto
  with r T ok show ?thesis by blast
qed

text \<open>
  C6 as stated fails when the popup never shows. Both files are there (left by an earlier
  run), so no file is missing, yet \<open>make_ca\<close> raises: the error is the timeout of the popup
  responder, which names no file, and the certificate is not added to the Root store. Neither
  side of the claim's alternative holds.
\<close>

theorem make_ca_timeout_counterexample:
  "''ca.pvk'' \<in> set (files (snd (make_ca still_env ''CA'' ''pw'' ''ca.pvk'' ''ca.cer'' 24 ca_world))) \<and>
   ''ca.cer'' \<in> set (files (snd (make_ca still_env ''CA'' ''pw'' ''ca.pvk'' ''ca.cer'' 24 ca_world))) \<and>
   fst (make_ca still_env ''CA'' ''pw'' ''ca.pvk'' ''ca.cer'' 24 ca_world) =
     Inl (RuntimeError ''timeout waiting for makecert popup(1)'') \<and>
   execs (trace (snd (make_ca still_env ''CA'' ''pw'' ''ca.pvk'' ''ca.cer'' 24 ca_world))) = []"
  by code_simp

text \<open>
  C7. The claim has the end date of the validity window be the date of the current time plus
  \<open>valid_hours\<close> hours. The code adds the timedelta to \<^verbatim>\<open>now.date()\<close>, and a date plus a
  timedelta moves by the whole days of the timedelta only: the end date is the current date
  plus \<open>valid_hours\<close> hours rounded down to whole days. At 23:00 on 1 January 2017 with
  \<open>valid_hours = 2\<close> the current time plus two hours is on 2 January, and the code gives
  makecert the end date 01/01/2017 (the begin date, 12/31/2016, is as claimed).
\<close>

theorem make_ca_end_date_drops_hours:
  "make_ca_dates \<lparr>year = 2017, month = 1, day = 1, hour = 23, minute = 0, second = 0\<rparr> 2 =
     Inr (''12/31/2016'', ''01/01/2017'') \<and>
   claimed_end_date \<lparr>year = 2017, month = 1, day = 1, hour = 23, minute = 0, second = 0\<rparr> 2 =
     Inr ''01/02/2017'' \<and>
   clock still_env [] = \<lparr>year = 2017, month = 1, day = 1, hour = 23, minute = 0, second = 0\<rparr> \<and>
   Run (make_ca_cmd (path_join (path_join ''C:/SDK'' ''Bin'') ''makecert.exe'')
          ''12/31/2016'' ''01/01/2017'' ''CA'' ''ca.pvk'' ''ca.cer'')
     \<in> set (trace (snd (make_ca (wm_after 1 still_env) ''CA'' ''pw'' ''ca.pvk'' ''ca.cer'' 2 ca_world)))"
  by code_simp

section \<open>Facts about the creation of an end-entity package\<close>

lemma made_simps [simp]:
  "made [] = []"
  "made (a @ c) = made a @ made c"
  "made (Mkdtemp d # h) = d # made h"
  "made (IsFile f ok # h) = made h"
  "made (Exec argv # h) = made h"
  "made (Log l m # h) = made h"
  "made (RegQuery # h) = made h"
  "made (Run cmd # h) = made h"
  "made (AppActivate t # h) = made h"
  "made (SendKeys k # h) = made h"
  "made (Sleep n # h) = made h"
  "made (Rmtree d # h) = made h"
  "made (Now # h) = made h"
  by (simp_all add: made_def List.map_filter_def)








lemma check_output_or_RuntimeError_trace [simp]:
  "trace (snd (check_output_or_RuntimeError E argv msg w)) = trace w @ [Exec argv]"
  by (simp add: check_output_or_RuntimeError_def check_output_def split: prod.splits sum.splits error.splits)



lemma within_self [simp]: "within d d"
  by (simp add: within_def)

lemma shutil_rmtree_trace [simp]: "trace (shutil_rmtree E d w) = trace w @ [Rmtree d]"
  by (simp add: shutil_rmtree_def Let_def)


lemma tempfile_mkdtemp_simps [simp]:
  "fst (tempfile_mkdtemp E w) = tmpname E (trace w)"
  "trace (snd (tempfile_mkdtemp E w)) = trace w @ [Mkdtemp (tmpname E (trace w))]"
  by (simp_all add: tempfile_mkdtemp_def Let_def)


section \<open>The claim about the scratch directory\<close>




end
